theory Spec2Isabelle
  imports Complex_Main
begin

section \<open>Differential aperture photometry: the class TimeSeriesData\<close>

text \<open>
  A shallow embedding of \<^verbatim>\<open>src/transito/transito.py\<close>. Pixel values, fluxes and
  exposure times are float64 in the program and real numbers here: the theory follows the
  data flow and the control flow of the program, not the rounding of its arithmetic.
  A NaN of the program (the median of an empty array) is \<open>None\<close> of an option.
  The routines of astropy and photutils (WCS projection, Gaussian centroid fit, aperture
  sums, sigma-clipped statistics) are not part of the repository: their results are
  fields of the records \<open>lib\<close> and \<open>frame\<close>, and exceptions raised inside them are not
  modelled.
  \<^verbatim>\<open>assert\<close> is modelled as the interpreter runs it by default (no \<^verbatim>\<open>-O\<close>).
\<close>

subsection \<open>Errors, header values, log\<close>

datatype error = AssertionError | AttributeError | TypeError | ValueError | ZeroDivisionError

text \<open>A FITS header card holds a number or a string.\<close>

datatype hval = HNum real | HStr string

type_synonym header = "string \<rightharpoonup> hval"

text \<open>What the code hands to \<^verbatim>\<open>logger.error\<close>, \<^verbatim>\<open>logger.debug\<close> and \<^verbatim>\<open>logger.info\<close>.\<close>

datatype log_event = LogError string | LogDebug string | LogInfo string | LogInfoCounts real

subsection \<open>The instance: configuration and mutable attributes\<close>

text \<open>
  The attributes \<^verbatim>\<open>__init__\<close> sets (lines 78 to 92), and the two attributes
  \<^verbatim>\<open>get_star_data\<close> assigns: \<^verbatim>\<open>self.header\<close> (absent until the first file is read)
  and \<^verbatim>\<open>self.good_frames_list\<close>. \<open>logfile\<close> is the sequence of logger calls so far.
  \<^verbatim>\<open>box_w\<close> is used as a slice bound, so it is an integer.
\<close>

record self =
  star_id :: string
  list_reference_stars :: "string list"
  r :: real
  r_in :: real
  r_out :: real
  box_w :: int
  binsize :: nat
  header :: "header option"
  good_frames_list :: "string list"
  logfile :: "log_event list"

definition init :: "string \<Rightarrow> string list \<Rightarrow> real \<Rightarrow> int \<Rightarrow> self" where
  "init sid refs aperture_radius centroid_box_width =
     \<lparr> star_id = sid,
       list_reference_stars = refs,
       r = aperture_radius,
       r_in = aperture_radius * 1.6,
       r_out = aperture_radius * 2.2,
       box_w = centroid_box_width,
       binsize = 4,
       header = None,
       good_frames_list = [],
       logfile = [] \<rparr>"

definition logger :: "log_event \<Rightarrow> self \<Rightarrow> self" where
  "logger ev s = s\<lparr>logfile := logfile s @ [ev]\<rparr>"

subsection \<open>Header Resolver: \<^verbatim>\<open>get_keyword_value\<close> (lines 150 to 166)\<close>

text \<open>
  \<^verbatim>\<open>self.keyword_list\<close> reads one column of \<^verbatim>\<open>telescope_keywords.csv\<close>, a file that
  is not in the repository: the list of keywords is a parameter \<open>kws\<close>.
  \<^verbatim>\<open>Outputs\<close> is the named tuple the function returns.
\<close>

record outputs =
  o_exp :: hval
  o_obstime :: hval
  o_instr :: hval
  o_readout :: hval
  o_gain :: hval

text \<open>The function returns the caller's \<^verbatim>\<open>default\<close> or an \<^verbatim>\<open>Outputs\<close> tuple.\<close>

datatype 'd kw_return = Default 'd | Outputs outputs

text \<open>
  \<^verbatim>\<open>exp, obstime, instr, readout, gain = kw_values\<close>: five values unpack, any other
  number raises ValueError.
\<close>

fun unpack5 :: "hval list \<Rightarrow> error + outputs" where
  "unpack5 [a, b, c, d, e] =
     Inr \<lparr> o_exp = a, o_obstime = b, o_instr = c, o_readout = d, o_gain = e \<rparr>"
| "unpack5 vs = Inl ValueError"

text \<open>
  \<^verbatim>\<open>itemgetter(*kws)(header)\<close>: with no key the call of \<^verbatim>\<open>itemgetter\<close> raises TypeError
  (outside what the \<^verbatim>\<open>except KeyError\<close> catches); with one key it returns the bare value,
  which then unpacks as a string does (character by character) or, for a number, raises
  TypeError; with more keys it returns the tuple of the values. The first absent key raises
  KeyError, which the function catches.
\<close>

definition itemgetter :: "string list \<Rightarrow> header \<Rightarrow> hval list option" where
  "itemgetter kws h = those (map h kws)"

fun unpack_kw_values :: "hval list \<Rightarrow> error + outputs" where
  "unpack_kw_values [HNum x] = Inl TypeError"
| "unpack_kw_values [HStr s] = unpack5 (map (\<lambda>c. HStr [c]) s)"
| "unpack_kw_values vs = unpack5 vs"

definition get_keyword_value ::
  "string list \<Rightarrow> 'd \<Rightarrow> self \<Rightarrow> (error + 'd kw_return) \<times> self" where
  "get_keyword_value kws dflt s =
     (case header s of
        None \<Rightarrow> (Inl AttributeError, s)
      | Some h \<Rightarrow>
          if kws = [] then (Inl TypeError, s)
          else (case itemgetter kws h of
                  None \<Rightarrow> (Inr (Default dflt),
                           logger (LogError ''Header keyword does not exist'') s)
                | Some kw_values \<Rightarrow>
                    (case unpack_kw_values kw_values of
                       Inl e \<Rightarrow> (Inl e, s)
                     | Inr out \<Rightarrow> (Inr (Outputs out), s))))"

text \<open>
  The properties \<^verbatim>\<open>exptime\<close>, \<^verbatim>\<open>obs_time\<close>, \<^verbatim>\<open>readout\<close>, \<^verbatim>\<open>gain\<close> (lines 110 to 128)
  call \<^verbatim>\<open>get_keyword_value()\<close> with the default \<^verbatim>\<open>None\<close> and read one field of the
  result; on \<^verbatim>\<open>None\<close> the attribute access raises AttributeError.
\<close>

definition property :: "(outputs \<Rightarrow> hval) \<Rightarrow> string list \<Rightarrow> self \<Rightarrow> (error + hval) \<times> self" where
  "property field kws s =
     (case get_keyword_value kws () s of
        (Inl e, s') \<Rightarrow> (Inl e, s')
      | (Inr (Default u), s') \<Rightarrow> (Inl AttributeError, s')
      | (Inr (Outputs out), s') \<Rightarrow> (Inr (field out), s'))"

definition exptime :: "string list \<Rightarrow> self \<Rightarrow> (error + hval) \<times> self" where
  "exptime = property o_exp"

definition obs_time :: "string list \<Rightarrow> self \<Rightarrow> (error + hval) \<times> self" where
  "obs_time = property o_obstime"

definition readout :: "string list \<Rightarrow> self \<Rightarrow> (error + hval) \<times> self" where
  "readout = property o_readout"

definition gain :: "string list \<Rightarrow> self \<Rightarrow> (error + hval) \<times> self" where
  "gain = property o_gain"

subsection \<open>Aperture Photometer: \<^verbatim>\<open>make_aperture\<close> (lines 168 to 251)\<close>

text \<open>
  What photutils and astropy compute: the centroid of a masked cutout
  (\<^verbatim>\<open>centroid_2dg\<close>), the sigma-clipped median of the annulus pixels
  (\<^verbatim>\<open>sigma_clipped_stats\<close> on the annulus mask, given the image, the centre and the two
  radii), the sum in the circular aperture (column \<^verbatim>\<open>aperture_sum_0\<close> of
  \<^verbatim>\<open>aperture_photometry\<close>, given the image, the centre and the radius) and the area of
  a circular aperture of a radius (\<^verbatim>\<open>CircularAperture.area\<close>).
\<close>

type_synonym image = "real list list"

record lib =
  centroid_2dg :: "image \<Rightarrow> bool list list \<Rightarrow> real \<times> real"
  sigma_clipped_median :: "image \<Rightarrow> real \<times> real \<Rightarrow> real \<Rightarrow> real \<Rightarrow> real"
  aperture_sum :: "image \<Rightarrow> real \<times> real \<Rightarrow> real \<Rightarrow> real"
  area :: "real \<Rightarrow> real"

definition make_aperture ::
  "lib \<Rightarrow> image \<Rightarrow> real \<times> real \<Rightarrow> real \<Rightarrow> real \<Rightarrow> real \<Rightarrow> self
     \<Rightarrow> (error + real \<times> real) \<times> self" where
  "make_aperture L data coordinates radius rin rout s =
     (let median_sigclip = sigma_clipped_median L data coordinates rin rout;
          aperture_sum_0 = aperture_sum L data coordinates radius;
          sky_bkg = median_sigclip;
          background_in_target = sky_bkg * area L radius
      in if aperture_sum_0 > background_in_target
         then (let object_final_counts = aperture_sum_0 - background_in_target
               in (Inr (object_final_counts, background_in_target),
                   logger (LogInfoCounts object_final_counts) s))
         else (Inl AssertionError, s))"

subsection \<open>numpy: integer conversion, slicing, statistics, masks\<close>

text \<open>\<^verbatim>\<open>np.int\<close> is Python's \<^verbatim>\<open>int\<close>: it truncates towards zero.\<close>

definition np_int :: "real \<Rightarrow> int" where
  "np_int v = (if v < 0 then \<lceil>v\<rceil> else \<lfloor>v\<rfloor>)"

text \<open>
  A slice bound of Python on a sequence of length \<open>n\<close>: a negative bound counts from the
  end, then the bound is clipped to \<open>0..n\<close>. The slice \<^verbatim>\<open>xs[a:b]\<close> holds the elements
  from the lower to the upper bound, none when the lower is not below the upper.
\<close>

definition py_bound :: "int \<Rightarrow> nat \<Rightarrow> nat" where
  "py_bound i n = (if i < 0 then nat (max (i + int n) 0) else min (nat i) n)"

definition py_slice :: "int \<Rightarrow> int \<Rightarrow> 'a list \<Rightarrow> 'a list" where
  "py_slice a b xs =
     (let n = length xs; lo = py_bound a n; hi = py_bound b n
      in take (hi - lo) (drop lo xs))"

text \<open>\<^verbatim>\<open>data[a:b, c:d]\<close> on a two-dimensional array, a list of rows.\<close>

definition np_slice2 :: "int \<Rightarrow> int \<Rightarrow> int \<Rightarrow> int \<Rightarrow> image \<Rightarrow> image" where
  "np_slice2 a b c d data = map (py_slice c d) (py_slice a b data)"

definition np_mean :: "real list \<Rightarrow> real" where
  "np_mean xs = sum_list xs / real (length xs)"

text \<open>\<^verbatim>\<open>np.std\<close>: the population standard deviation of all elements.\<close>

definition np_std :: "real list \<Rightarrow> real" where
  "np_std xs = sqrt (np_mean (map (\<lambda>v. (v - np_mean xs)\<^sup>2) xs))"

text \<open>
  \<^verbatim>\<open>np.median\<close> of all elements: the middle of the sorted values, the mean of the two
  middle ones for an even count, NaN for none.
\<close>

definition np_median :: "real list \<Rightarrow> real option" where
  "np_median xs =
     (let ys = sort xs; n = length ys
      in if n = 0 then None
         else if odd n then Some (ys ! (n div 2))
         else Some ((ys ! (n div 2 - 1) + ys ! (n div 2)) / 2))"

text \<open>
  \<^verbatim>\<open>ma.masked_values(x, value)\<close> on floating-point data masks the elements that
  \<^verbatim>\<open>np.isclose(x, value, atol=1e-8, rtol=1e-5)\<close> accepts; nothing is close to NaN.
\<close>

definition isclose :: "real \<Rightarrow> real \<Rightarrow> bool" where
  "isclose a b = (\<bar>a - b\<bar> \<le> 1 / 10 ^ 8 + (1 / 10 ^ 5) * \<bar>b\<bar>)"

definition masked_values :: "image \<Rightarrow> real option \<Rightarrow> bool list list" where
  "masked_values x val =
     map (map (\<lambda>v. case val of None \<Rightarrow> False | Some t \<Rightarrow> isclose v t)) x"

subsection \<open>Per-Star Time Series Extractor: \<^verbatim>\<open>get_star_data\<close> (lines 254 to 353)\<close>

text \<open>
  One file as \<^verbatim>\<open>fits.getdata\<close> and \<^verbatim>\<open>WCS\<close> present it: its name, pixel data and
  header, whether its WCS is celestial, and the pair \<^verbatim>\<open>wcs.all_world2pix\<close> returns for
  the coordinates of a star (the code names the pair \<^verbatim>\<open>y, x\<close>).
\<close>

record frame =
  fname :: string
  pixels :: image
  hdr :: header
  wcs_is_celestial :: bool
  all_world2pix :: "string \<Rightarrow> real \<times> real"

text \<open>The six lists the function builds and returns.\<close>

record star_data =
  object_counts :: "real list"
  background_in_object :: "real list"
  exptimes :: "hval list"
  x_pos :: "real list"
  y_pos :: "real list"
  times :: "hval list"

definition no_data :: star_data where
  "no_data = \<lparr> object_counts = [], background_in_object = [], exptimes = [],
               x_pos = [], y_pos = [], times = [] \<rparr>"

text \<open>
  \<^verbatim>\<open>self.exptime * 24 * 60 * 60\<close>: a product of numbers, or a string repeated.
\<close>

fun py_times :: "hval \<Rightarrow> nat \<Rightarrow> hval" where
  "py_times (HNum v) n = HNum (v * real n)"
| "py_times (HStr t) n = HStr (concat (replicate n t))"

text \<open>Lines 315 to 321: the cutout around the truncated position and its mask.\<close>

definition cutout :: "self \<Rightarrow> image \<Rightarrow> real \<Rightarrow> real \<Rightarrow> image" where
  "cutout s data x y =
     np_slice2 (np_int x - box_w s) (np_int x + box_w s)
               (np_int y - box_w s) (np_int y + box_w s) data"

definition threshold :: "image \<Rightarrow> real option" where
  "threshold sub_image =
     (let sigma = 1; flat = concat sub_image
      in np_median (map (\<lambda>v. v - sigma * np_std flat) flat))"

text \<open>
  The loop over the files (lines 297 to 350). \<^verbatim>\<open>break\<close> returns what has been
  collected; an exception leaves the loop with \<open>Inl\<close>.
\<close>

fun frames_loop ::
  "string list \<Rightarrow> lib \<Rightarrow> string \<Rightarrow> frame list \<Rightarrow> star_data \<Rightarrow> self
     \<Rightarrow> (error + star_data) \<times> self" where
  "frames_loop kws L star [] acc s = (Inr acc, s)"
| "frames_loop kws L star (f # fs) acc s =
     (let s1 = s\<lparr>header := Some (hdr f)\<rparr>
      in if wcs_is_celestial f then
           (let (y, x) = all_world2pix f star
            in if r_out s1 > real_of_int (box_w s1)
               then (Inr acc, logger (LogDebug ''Out of box. Choose a smaller outer radius.'') s1)
               else
                 (let sub_image = cutout s1 (pixels f) x y;
                      mask = masked_values sub_image (threshold sub_image);
                      (x_cen, y_cen) = centroid_2dg L sub_image mask
                  in case exptime kws s1 of
                       (Inl e, s2) \<Rightarrow> (Inl e, s2)
                     | (Inr ex, s2) \<Rightarrow>
                         (let acc1 = acc\<lparr>exptimes := exptimes acc @ [py_times ex (24 * 60 * 60)]\<rparr>
                          in case obs_time kws s2 of
                               (Inl e, s3) \<Rightarrow> (Inl e, s3)
                             | (Inr time, s3) \<Rightarrow>
                                 (case make_aperture L sub_image (x_cen, y_cen)
                                         (r s3) (r_in s3) (r_out s3) s3 of
                                    (Inl e, s4) \<Rightarrow> (Inl e, s4)
                                  | (Inr (counts_in_aperture, bkg_in_object), s4) \<Rightarrow>
                                      frames_loop kws L star fs
                                        (acc1\<lparr>object_counts := object_counts acc1 @ [counts_in_aperture],
                                              background_in_object :=
                                                background_in_object acc1 @ [bkg_in_object],
                                              x_pos := x_pos acc1 @ [x],
                                              y_pos := y_pos acc1 @ [y],
                                              times := times acc1 @ [time]\<rparr>)
                                        (s4\<lparr>good_frames_list :=
                                              good_frames_list s4 @ [fname f]\<rparr>)))))
         else frames_loop kws L star fs acc s1)"

text \<open>
  \<open>fits_files\<close> is what \<^verbatim>\<open>search_files_across_directories\<close> found, in its order; the
  loop takes the first 600.
\<close>

definition get_star_data ::
  "string list \<Rightarrow> lib \<Rightarrow> string \<Rightarrow> frame list \<Rightarrow> self \<Rightarrow> (error + star_data) \<times> self" where
  "get_star_data kws L star fits_files s =
     frames_loop kws L star (take 600 fits_files) no_data (s\<lparr>good_frames_list := []\<rparr>)"

text \<open>The six lists are as long as the list of good frames.\<close>

definition aligned :: "star_data \<Rightarrow> self \<Rightarrow> bool" where
  "aligned d s \<longleftrightarrow>
     length (object_counts d) = length (good_frames_list s)
     \<and> length (background_in_object d) = length (good_frames_list s)
     \<and> length (exptimes d) = length (good_frames_list s)
     \<and> length (x_pos d) = length (good_frames_list s)
     \<and> length (y_pos d) = length (good_frames_list s)
     \<and> length (times d) = length (good_frames_list s)"

subsection \<open>numpy: arrays\<close>

text \<open>
  A one-dimensional array is a list, a two-dimensional array the list of its rows.
  An operation on two one-dimensional arrays applies element by element when the lengths
  agree; an array of length 1 is stretched to the length of the other (broadcasting);
  any other pair of lengths raises ValueError.
  Division is the division of the reals: where numpy divides by zero it warns and yields
  an infinity or a NaN, which no real number stands for, so the theorems below assume
  divisors that are not zero where the quotient matters.
\<close>

definition np_broadcast ::
  "(real \<Rightarrow> real \<Rightarrow> real) \<Rightarrow> real list \<Rightarrow> real list \<Rightarrow> error + real list" where
  "np_broadcast f xs ys =
     (if length xs = length ys then Inr (map2 f xs ys)
      else if length xs = 1 then Inr (map (f (hd xs)) ys)
      else if length ys = 1 then Inr (map (\<lambda>x. f x (hd ys)) xs)
      else Inl ValueError)"

text \<open>
  \<^verbatim>\<open>np.asarray\<close> of a list of header values is an array of floats when every value
  is a number; with a string among them it is an array of strings, and the first
  arithmetic on it raises TypeError.
\<close>

fun as_floats :: "hval list \<Rightarrow> error + real list" where
  "as_floats [] = Inr []"
| "as_floats (HStr t # hs) = Inl TypeError"
| "as_floats (HNum v # hs) = (case as_floats hs of Inl e \<Rightarrow> Inl e | Inr vs \<Rightarrow> Inr (v # vs))"

text \<open>
  \<^verbatim>\<open>np.asarray\<close> of a list of one-dimensional arrays is two-dimensional when the
  arrays have one length. For arrays of different lengths numpy raises ValueError or, in
  older versions, builds an array of objects; the model takes the first.
\<close>

definition np_asarray2 :: "real list list \<Rightarrow> error + real list list" where
  "np_asarray2 rows =
     (if list_all (\<lambda>row. length row = length (hd rows)) rows then Inr rows else Inl ValueError)"

text \<open>
  An operation on a two-dimensional array and a one-dimensional one broadcasts the latter
  along the rows. The array of no rows is the empty one-dimensional array.
\<close>

fun collect :: "(error + 'a) list \<Rightarrow> error + 'a list" where
  "collect [] = Inr []"
| "collect (Inl e # xs) = Inl e"
| "collect (Inr v # xs) = (case collect xs of Inl e \<Rightarrow> Inl e | Inr vs \<Rightarrow> Inr (v # vs))"

definition np_broadcast2 ::
  "(real \<Rightarrow> real \<Rightarrow> real) \<Rightarrow> real list list \<Rightarrow> real list \<Rightarrow> error + real list list" where
  "np_broadcast2 f a v =
     (if a = [] then (case np_broadcast f [] v of Inl e \<Rightarrow> Inl e | Inr u \<Rightarrow> Inr [])
      else collect (map (\<lambda>row. np_broadcast f row v) a))"

text \<open>Column \<open>j\<close> of a two-dimensional array, and the sums along axis 0.\<close>

definition column :: "real list list \<Rightarrow> nat \<Rightarrow> real list" where
  "column a j = map (\<lambda>row. row ! j) a"

definition np_sum0 :: "real list list \<Rightarrow> real list" where
  "np_sum0 a = (if a = [] then [] else map (\<lambda>j. sum_list (column a j)) [0..<length (hd a)])"

text \<open>
  \<^verbatim>\<open>np.average(a, weights=w, axis=0)\<close> for \<open>a\<close> and \<open>w\<close> of one shape: the sums of
  the weights along axis 0 must all be non-zero, or numpy raises ZeroDivisionError;
  the result is the sum of \<open>a * w\<close> along axis 0 over the sum of the weights.
\<close>

definition np_average :: "real list list \<Rightarrow> real list list \<Rightarrow> error + real list" where
  "np_average a w =
     (let scl = (if w = [] then [0] else np_sum0 w)
      in if list_ex (\<lambda>v. v = 0) scl then Inl ZeroDivisionError
         else Inr (map2 (/) (np_sum0 (map2 (map2 (*)) a w)) scl))"

subsection \<open>Differential Photometry Engine: \<^verbatim>\<open>do_photometry\<close> (lines 356 to 503)\<close>

text \<open>
  The loop over the reference stars (lines 456 to 470). \<open>files\<close> is what the file search
  finds when \<^verbatim>\<open>get_star_data\<close> calls it for a star; the search is called with the same
  directory and pattern for every star, so in a run \<open>files\<close> is a constant function.
  \<open>etimes\<close> is the array \<^verbatim>\<open>exptimes\<close> of \<^verbatim>\<open>do_photometry\<close>, the exposure times of
  the target. The exposure times \<^verbatim>\<open>exptimes_ref\<close> the call returns are not used.
\<close>

fun ref_loop ::
  "string list \<Rightarrow> lib \<Rightarrow> (string \<Rightarrow> frame list) \<Rightarrow> real list \<Rightarrow> string list
     \<Rightarrow> real list list \<times> real list list \<Rightarrow> self
     \<Rightarrow> (error + real list list \<times> real list list) \<times> self" where
  "ref_loop kws L files etimes [] acc s = (Inr acc, s)"
| "ref_loop kws L files etimes (ref_star # stars) (flux_sec, bkg_sec) s =
     (case get_star_data kws L ref_star (files ref_star) s of
        (Inl e, s1) \<Rightarrow> (Inl e, s1)
      | (Inr d, s1) \<Rightarrow>
          (case np_broadcast (/) (object_counts d) etimes of
             Inl e \<Rightarrow> (Inl e, s1)
           | Inr f \<Rightarrow>
               (case np_broadcast (/) (background_in_object d) etimes of
                  Inl e \<Rightarrow> (Inl e, s1)
                | Inr b \<Rightarrow>
                    ref_loop kws L files etimes stars (flux_sec @ [f], bkg_sec @ [b]) s1)))"

text \<open>
  What \<^verbatim>\<open>do_photometry\<close> has computed when it reaches line 503: the arrays of the
  target, the two-dimensional arrays of the reference stars, and the fluxes derived from
  them.
\<close>

record photometry =
  target_flux :: "real list"
  exptimes_sec :: "real list"
  target_flux_sec :: "real list"
  readout_noise :: "real list"
  reference_star_flux_sec :: "real list list"
  background_in_ref_star_sec :: "real list list"
  ref_flux_averaged :: "real list"
  total_reference_flux_sec :: "real list"
  differential_flux :: "real list"
  normalized_flux :: "real list"

text \<open>
  Lines 472 to 503, on the arrays collected before. \<^verbatim>\<open>np.nanmedian\<close> is the median
  (the reals have no NaN); of no element it is NaN, and then there is no element to divide.
\<close>

definition ensemble ::
  "real list \<Rightarrow> real list \<Rightarrow> real list \<Rightarrow> real list \<Rightarrow> real list list \<Rightarrow> real list list
     \<Rightarrow> error + photometry" where
  "ensemble tflux etimes tflux_sec ron flux_list bkg_list =
     (case np_asarray2 flux_list of Inl e \<Rightarrow> Inl e | Inr flux_sec \<Rightarrow>
     (case np_asarray2 bkg_list of Inl e \<Rightarrow> Inl e | Inr bkg_sec \<Rightarrow>
     (case np_broadcast2 (*) flux_sec etimes of Inl e \<Rightarrow> Inl e | Inr flux_exp \<Rightarrow>
     (case np_broadcast2 (*) bkg_sec etimes of Inl e \<Rightarrow> Inl e | Inr bkg_exp \<Rightarrow>
     (case np_broadcast2 (+) (map2 (map2 (+)) flux_exp bkg_exp) ron of Inl e \<Rightarrow> Inl e
      | Inr sigma_squared_ref \<Rightarrow>
     (case np_average flux_exp (map (map (\<lambda>v. 1 / v)) sigma_squared_ref) of Inl e \<Rightarrow> Inl e
      | Inr averaged \<Rightarrow>
     (case np_broadcast (/) tflux averaged of Inl e \<Rightarrow> Inl e | Inr differential \<Rightarrow>
        Inr \<lparr> target_flux = tflux,
              exptimes_sec = etimes,
              target_flux_sec = tflux_sec,
              readout_noise = ron,
              reference_star_flux_sec = flux_sec,
              background_in_ref_star_sec = bkg_sec,
              ref_flux_averaged = averaged,
              total_reference_flux_sec = np_sum0 flux_sec,
              differential_flux = differential,
              normalized_flux =
                (case np_median differential of
                   None \<Rightarrow> []
                 | Some m \<Rightarrow> map (\<lambda>v. v / m) differential) \<rparr>)))))))"

text \<open>
  \<^verbatim>\<open>do_photometry\<close> up to the normalised flux. The noise terms and the signal-to-noise
  ratios of lines 423 to 451 and 491 to 497 are arithmetic on these arrays that raises
  nothing and enters no flux; they and the \<^verbatim>\<open>logger.info\<close> calls of this function are
  left out. A gain that is a string raises TypeError in the first of them (line 425), a
  readout noise that is a string in line 421.
\<close>

definition do_photometry ::
  "string list \<Rightarrow> lib \<Rightarrow> (string \<Rightarrow> frame list) \<Rightarrow> self \<Rightarrow> (error + photometry) \<times> self" where
  "do_photometry kws L files s =
     (case get_star_data kws L (star_id s) (files (star_id s)) s of
        (Inl e, s1) \<Rightarrow> (Inl e, s1)
      | (Inr d, s1) \<Rightarrow>
     (case as_floats (exptimes d) of Inl e \<Rightarrow> (Inl e, s1) | Inr etimes \<Rightarrow>
     (case np_broadcast (/) (object_counts d) etimes of Inl e \<Rightarrow> (Inl e, s1)
      | Inr tflux_sec \<Rightarrow>
     (case np_broadcast (/) (background_in_object d) etimes of Inl e \<Rightarrow> (Inl e, s1)
      | Inr background_in_target_sec \<Rightarrow>
     (case gain kws s1 of
        (Inl e, s2) \<Rightarrow> (Inl e, s2)
      | (Inr ccd_gain, s2) \<Rightarrow>
     (case readout kws s2 of
        (Inl e, s3) \<Rightarrow> (Inl e, s3)
      | (Inr (HStr t), s3) \<Rightarrow> (Inl TypeError, s3)
      | (Inr (HNum rd), s3) \<Rightarrow>
     (case ccd_gain of
        HStr t \<Rightarrow> (Inl TypeError, s3)
      | HNum g \<Rightarrow>
     (case ref_loop kws L files etimes (list_reference_stars s3) ([], []) s3 of
        (Inl e, s4) \<Rightarrow> (Inl e, s4)
      | (Inr (flux_list, bkg_list), s4) \<Rightarrow>
          (ensemble (object_counts d) etimes tflux_sec
             (replicate (length (good_frames_list s3)) ((rd * r s3)\<^sup>2 * pi))
             flux_list bkg_list, s4)))))))))"

text \<open>
  The attributes that no method assigns after \<^verbatim>\<open>__init__\<close>.
\<close>

definition config :: "self \<Rightarrow> real \<times> real \<times> real \<times> int \<times> string \<times> string list" where
  "config s = (r s, r_in s, r_out s, box_w s, star_id s, list_reference_stars s)"

text \<open>
  The differential flux as the specification words it: the raw counts of the target over
  the variance-weighted average of the per-exposure fluxes of the reference stars, the
  weight of a star being the inverse of flux times exposure time plus background times
  exposure time plus readout variance (flux and background per second).
\<close>

definition variance_weight :: "real \<Rightarrow> real \<Rightarrow> real \<Rightarrow> real \<Rightarrow> real" where
  "variance_weight flux background exposure readout_variance =
     1 / (flux * exposure + background * exposure + readout_variance)"

definition weighted_average :: "real list \<Rightarrow> real list \<Rightarrow> real" where
  "weighted_average weights vals = sum_list (map2 (*) weights vals) / sum_list weights"

definition spec_differential_flux :: "real \<Rightarrow> real list \<Rightarrow> real list \<Rightarrow> real \<Rightarrow> real \<Rightarrow> real" where
  "spec_differential_flux target_counts fluxes backgrounds exposure readout_variance =
     target_counts /
       weighted_average
         (map2 (\<lambda>f b. variance_weight f b exposure readout_variance) fluxes backgrounds)
         (map (\<lambda>f. f * exposure) fluxes)"

subsection \<open>Sample inputs\<close>

text \<open>
  A header with the five cards of a keyword list, and library results that do not depend
  on the image: an aperture sum, a sky median, and the area \<open>3 r\<^sup>2\<close>.
\<close>

definition tess_keywords :: "string list" where
  "tess_keywords = [''EXPTIME'', ''DATE-OBS'', ''INSTRUME'', ''RDNOISE'', ''GAIN'']"

definition tess_header :: header where
  "tess_header = [''EXPTIME'' \<mapsto> HNum 0.02, ''DATE-OBS'' \<mapsto> HStr ''2019-07-25'',
                  ''INSTRUME'' \<mapsto> HStr ''TESS'', ''RDNOISE'' \<mapsto> HNum 7, ''GAIN'' \<mapsto> HNum 5]"

definition sample_lib :: "real \<Rightarrow> real \<Rightarrow> lib" where
  "sample_lib asum sky =
     \<lparr> centroid_2dg = (\<lambda>img m. (2, 2)),
       sigma_clipped_median = (\<lambda>img c a b. sky),
       aperture_sum = (\<lambda>img c rad. asum),
       area = (\<lambda>rad. 3 * rad\<^sup>2) \<rparr>"

text \<open>A \<open>4 \<times> 4\<close> image and frames that carry it, with the header above.\<close>

definition sample_pixels :: image where
  "sample_pixels = [[1, 2, 3, 4], [5, 6, 7, 8], [9, 10, 11, 12], [13, 14, 15, 16]]"

definition sample_frame :: "string \<Rightarrow> bool \<Rightarrow> real \<times> real \<Rightarrow> frame" where
  "sample_frame nm cel pos =
     \<lparr> fname = nm, pixels = sample_pixels, hdr = tess_header,
       wcs_is_celestial = cel, all_world2pix = (\<lambda>star. pos) \<rparr>"

definition sample_frames :: "frame list" where
  "sample_frames = [sample_frame ''a.fits'' True (2, 2), sample_frame ''b.fits'' False (2, 2),
                    sample_frame ''c.fits'' True (1, 1)]"

text \<open>
  Library results that depend on the cutout (the aperture sum is the sum of its pixels),
  frames in which three stars lie at different positions, and a file search that finds
  two such frames.
\<close>

definition pixel_lib :: lib where
  "pixel_lib =
     \<lparr> centroid_2dg = (\<lambda>img m. (1, 1)),
       sigma_clipped_median = (\<lambda>img c a b. 1),
       aperture_sum = (\<lambda>img c rad. sum_list (concat img)),
       area = (\<lambda>rad. 25 * rad\<^sup>2) \<rparr>"

definition field_frame :: "string \<Rightarrow> frame" where
  "field_frame nm =
     \<lparr> fname = nm, pixels = sample_pixels, hdr = tess_header, wcs_is_celestial = True,
       all_world2pix = (\<lambda>star. if star = ''WASP-1'' then (2, 2)
                               else if star = ''REF-1'' then (1, 1) else (3, 1)) \<rparr>"

definition field_files :: "string \<Rightarrow> frame list" where
  "field_files star = [field_frame ''a.fits'', field_frame ''b.fits'']"

section \<open>Properties\<close>

subsection \<open>Header Resolver\<close>


lemma those_eq_None: "those xs = None \<longleftrightarrow> None \<in> set xs"
  by (induction xs) (auto split: option.splits)

lemma itemgetter_absent: "itemgetter kws h = None \<longleftrightarrow> (\<exists>k \<in> set kws. h k = None)"
  unfolding itemgetter_def those_eq_None by (auto simp: image_iff) metis+

text \<open>
  Claim C8. When the header lacks at least one of the configured keywords,
  \<^verbatim>\<open>get_keyword_value\<close> logs an error and returns the caller's default, and no
  exception leaves it; when the five keywords are present it returns the tuple of their
  values, in the order exp, obstime, instr, readout, gain.
\<close>

theorem get_keyword_value_soft_fail:
  "header s = Some h \<Longrightarrow>
     ((\<exists>k \<in> set kws. h k = None) \<longrightarrow>
        get_keyword_value kws dflt s
          = (Inr (Default dflt), s\<lparr>logfile := logfile s @ [LogError ''Header keyword does not exist'']\<rparr>))
   \<and> (kws = [k1, k2, k3, k4, k5] \<and> h k1 = Some v1 \<and> h k2 = Some v2 \<and> h k3 = Some v3
        \<and> h k4 = Some v4 \<and> h k5 = Some v5 \<longrightarrow>
        get_keyword_value kws dflt s
          = (Inr (Outputs \<lparr> o_exp = v1, o_obstime = v2, o_instr = v3, o_readout = v4, o_gain = v5 \<rparr>), s))"
proof (intro conjI impI)
  assume hs: "header s = Some h" and ab: "\<exists>k \<in> set kws. h k = None"
  from ab have "kws \<noteq> []" by auto
  moreover from ab have "itemgetter kws h = None" by (simp add: itemgetter_absent)
  ultimately show "get_keyword_value kws dflt s
          = (Inr (Default dflt), s\<lparr>logfile := logfile s @ [LogError ''Header keyword does not exist'']\<rparr>)"
    using hs by (simp add: get_keyword_value_def logger_def)
next
  assume hs: "header s = Some h" and pr: "kws = [k1, k2, k3, k4, k5] \<and> h k1 = Some v1 \<and> h k2 = Some v2 \<and> h k3 = Some v3
        \<and> h k4 = Some v4 \<and> h k5 = Some v5"
  then show "get_keyword_value kws dflt s
          = (Inr (Outputs \<lparr> o_exp = v1, o_obstime = v2, o_instr = v3, o_readout = v4, o_gain = v5 \<rparr>), s)"
    by (simp add: get_keyword_value_def itemgetter_def)
qed

theorem get_keyword_value_soft_fail_witness:
  "get_keyword_value tess_keywords (0::nat) ((init ''WASP-1'' [] 5 20)\<lparr>header := Some (tess_header(''GAIN'' := None))\<rparr>)
     = (Inr (Default 0), (init ''WASP-1'' [] 5 20)\<lparr>header := Some (tess_header(''GAIN'' := None)),
          logfile := [LogError ''Header keyword does not exist'']\<rparr>)
   \<and> get_keyword_value tess_keywords (0::nat) ((init ''WASP-1'' [] 5 20)\<lparr>header := Some tess_header\<rparr>)
     = (Inr (Outputs \<lparr> o_exp = HNum 0.02, o_obstime = HStr ''2019-07-25'', o_instr = HStr ''TESS'',
                        o_readout = HNum 7, o_gain = HNum 5 \<rparr>),
        (init ''WASP-1'' [] 5 20)\<lparr>header := Some tess_header\<rparr>)"
proof -
  let ?s1 = "(init ''WASP-1'' [] 5 20)\<lparr>header := Some (tess_header(''GAIN'' := None))\<rparr>"
  let ?s2 = "(init ''WASP-1'' [] 5 20)\<lparr>header := Some tess_header\<rparr>"
  have a: "header ?s1 = Some (tess_header(''GAIN'' := None))" by simp
  have b: "header ?s2 = Some tess_header" by simp
  have c: "\<exists>k \<in> set tess_keywords. (tess_header(''GAIN'' := None)) k = None"
    by (simp add: tess_keywords_def)
  have d: "tess_keywords = [''EXPTIME'', ''DATE-OBS'', ''INSTRUME'', ''RDNOISE'', ''GAIN'']
      \<and> tess_header ''EXPTIME'' = Some (HNum 0.02) \<and> tess_header ''DATE-OBS'' = Some (HStr ''2019-07-25'')
      \<and> tess_header ''INSTRUME'' = Some (HStr ''TESS'') \<and> tess_header ''RDNOISE'' = Some (HNum 7)
      \<and> tess_header ''GAIN'' = Some (HNum 5)"
    by (simp add: tess_keywords_def tess_header_def)
  from get_keyword_value_soft_fail [OF a, where kws = tess_keywords and dflt = "0::nat"] c
  have 1: "get_keyword_value tess_keywords (0::nat) ?s1
     = (Inr (Default 0), ?s1\<lparr>logfile := logfile ?s1 @ [LogError ''Header keyword does not exist'']\<rparr>)"
    by blast
  from get_keyword_value_soft_fail [OF b, where kws = tess_keywords and dflt = "0::nat"
      and ?k1.0 = "''EXPTIME''" and ?k2.0 = "''DATE-OBS''" and ?k3.0 = "''INSTRUME''"
      and ?k4.0 = "''RDNOISE''" and ?k5.0 = "''GAIN''" and ?v1.0 = "HNum 0.02"
      and ?v2.0 = "HStr ''2019-07-25''" and ?v3.0 = "HStr ''TESS''" and ?v4.0 = "HNum 7"
      and ?v5.0 = "HNum 5"] d
  have 2: "get_keyword_value tess_keywords (0::nat) ?s2
     = (Inr (Outputs \<lparr> o_exp = HNum 0.02, o_obstime = HStr ''2019-07-25'', o_instr = HStr ''TESS'',
                        o_readout = HNum 7, o_gain = HNum 5 \<rparr>), ?s2)"
    by blast
  from 1 2 show ?thesis by (simp add: init_def)
qed

subsection \<open>Aperture Photometer\<close>

text \<open>
  Claim C1. \<^verbatim>\<open>make_aperture\<close> raises exactly when the aperture sum is not strictly
  greater than the background in the target aperture, that is when the net counts are not
  positive; the exception is the AssertionError; otherwise it returns the pair of the net
  counts and the background in the target aperture.
\<close>

theorem make_aperture_hard_failure:
  "((\<exists>e. fst (make_aperture L data c radius rin rout s) = Inl e)
      = (\<not> aperture_sum L data c radius > sigma_clipped_median L data c rin rout * area L radius))
   \<and> (\<forall>e. fst (make_aperture L data c radius rin rout s) = Inl e \<longrightarrow> e = AssertionError)
   \<and> ((\<not> aperture_sum L data c radius > sigma_clipped_median L data c rin rout * area L radius)
      = (\<not> aperture_sum L data c radius - sigma_clipped_median L data c rin rout * area L radius > 0))
   \<and> (aperture_sum L data c radius > sigma_clipped_median L data c rin rout * area L radius \<longrightarrow>
        fst (make_aperture L data c radius rin rout s)
          = Inr (aperture_sum L data c radius - sigma_clipped_median L data c rin rout * area L radius,
                 sigma_clipped_median L data c rin rout * area L radius))"
  by (simp add: make_aperture_def Let_def)

theorem make_aperture_hard_failure_witness:
  "fst (make_aperture (sample_lib 10000 50) [] (2, 2) 5 8 11 (init ''WASP-1'' [] 5 20)) = Inr (6250, 3750)
   \<and> fst (make_aperture (sample_lib 3000 50) [] (2, 2) 5 8 11 (init ''WASP-1'' [] 5 20)) = Inl AssertionError"
proof -
  let ?s = "init ''WASP-1'' [] 5 20"
  have a: "aperture_sum (sample_lib 10000 50) [] (2, 2) 5
             > sigma_clipped_median (sample_lib 10000 50) [] (2, 2) 8 11 * area (sample_lib 10000 50) 5"
    by (simp add: sample_lib_def)
  have b: "\<not> aperture_sum (sample_lib 3000 50) [] (2, 2) 5
             > sigma_clipped_median (sample_lib 3000 50) [] (2, 2) 8 11 * area (sample_lib 3000 50) 5"
    by (simp add: sample_lib_def)
  from make_aperture_hard_failure [of "sample_lib 10000 50" "[]" "(2, 2)" 5 8 11 ?s] a
  have 1: "fst (make_aperture (sample_lib 10000 50) [] (2, 2) 5 8 11 ?s)
             = Inr (aperture_sum (sample_lib 10000 50) [] (2, 2) 5
                      - sigma_clipped_median (sample_lib 10000 50) [] (2, 2) 8 11 * area (sample_lib 10000 50) 5,
                    sigma_clipped_median (sample_lib 10000 50) [] (2, 2) 8 11 * area (sample_lib 10000 50) 5)"
    by blast
  from make_aperture_hard_failure [of "sample_lib 3000 50" "[]" "(2, 2)" 5 8 11 ?s] b
  obtain e where "fst (make_aperture (sample_lib 3000 50) [] (2, 2) 5 8 11 ?s) = Inl e" "e = AssertionError"
    by blast
  with 1 show ?thesis by (simp add: sample_lib_def)
qed

text \<open>
  Claim C6. In every pair \<^verbatim>\<open>make_aperture\<close> returns, the background in the target
  aperture is the sigma-clipped median of the annulus times the area of the circular
  aperture of radius \<open>r\<close>, exactly and so within \<open>1e-8\<close>.
\<close>

theorem make_aperture_background:
  "make_aperture L data c radius rin rout s = (Inr (counts, bkg), s') \<Longrightarrow>
     bkg = sigma_clipped_median L data c rin rout * area L radius
     \<and> \<bar>bkg - sigma_clipped_median L data c rin rout * area L radius\<bar> \<le> 1 / 10 ^ 8"
  by (auto simp: make_aperture_def Let_def split: if_splits)

theorem make_aperture_background_witness:
  "make_aperture (sample_lib 10000 50) [] (2, 2) 5 8 11 (init ''WASP-1'' [] 5 20)
     = (Inr (6250, 3750), (init ''WASP-1'' [] 5 20)\<lparr>logfile := [LogInfoCounts 6250]\<rparr>)
   \<and> (3750::real) = sigma_clipped_median (sample_lib 10000 50) [] (2, 2) 8 11 * area (sample_lib 10000 50) 5"
proof -
  have a: "make_aperture (sample_lib 10000 50) [] (2, 2) 5 8 11 (init ''WASP-1'' [] 5 20)
     = (Inr (6250, 3750), (init ''WASP-1'' [] 5 20)\<lparr>logfile := [LogInfoCounts 6250]\<rparr>)"
    by (simp add: make_aperture_def sample_lib_def logger_def init_def)
  from make_aperture_background [OF a] a show ?thesis by blast
qed


subsection \<open>Per-Star Time Series Extractor\<close>


lemma get_keyword_value_state:
  "get_keyword_value kws dflt s = (res, s') \<Longrightarrow> s' = s\<lparr>logfile := logfile s'\<rparr>"
  by (auto simp: get_keyword_value_def logger_def split: option.splits if_splits sum.splits)

lemma property_state:
  "property field kws s = (res, s') \<Longrightarrow> s' = s\<lparr>logfile := logfile s'\<rparr>"
  unfolding property_def
  by (auto split: prod.splits sum.splits kw_return.splits dest: get_keyword_value_state)

lemma make_aperture_state:
  "make_aperture L data c radius rin rout s = (res, s') \<Longrightarrow> s' = s\<lparr>logfile := logfile s'\<rparr>"
  by (auto simp: make_aperture_def Let_def logger_def split: if_splits)

lemma frames_loop_not_celestial:
  "\<not> wcs_is_celestial f \<Longrightarrow>
     frames_loop kws L star (f # fs) acc s = frames_loop kws L star fs acc (s\<lparr>header := Some (hdr f)\<rparr>)"
  by simp

lemma frames_loop_out_of_box:
  "wcs_is_celestial f \<Longrightarrow> r_out s > real_of_int (box_w s) \<Longrightarrow>
     frames_loop kws L star (f # fs) acc s
       = (Inr acc, logger (LogDebug ''Out of box. Choose a smaller outer radius.'')
                     (s\<lparr>header := Some (hdr f)\<rparr>))"
  by (simp add: Let_def split: prod.splits)

lemma frames_loop_good:
  "frames_loop kws L star fs acc s = (Inr acc', s') \<Longrightarrow> aligned acc s \<Longrightarrow>
     aligned acc' s'
     \<and> r_out s' = r_out s \<and> box_w s' = box_w s
     \<and> good_frames_list s' = good_frames_list s @
          (if r_out s > real_of_int (box_w s) then [] else map fname (filter wcs_is_celestial fs))"
proof (induction fs arbitrary: acc s)
  case Nil
  then show ?case by simp
next
  case (Cons f fs)
  show ?case
  proof (cases "wcs_is_celestial f")
    case False
    with Cons.prems have "frames_loop kws L star fs acc (s\<lparr>header := Some (hdr f)\<rparr>) = (Inr acc', s')"
      by simp
    moreover have "aligned acc (s\<lparr>header := Some (hdr f)\<rparr>)"
      using Cons.prems(2) by (simp add: aligned_def)
    ultimately show ?thesis using Cons.IH False by fastforce
  next
    case True
    show ?thesis
    proof (cases "r_out s > real_of_int (box_w s)")
      case out: True
      with True Cons.prems show ?thesis
        by (auto simp: frames_loop_out_of_box logger_def aligned_def)
    next
      case inside: False
      let ?s1 = "s\<lparr>header := Some (hdr f)\<rparr>"
      obtain y x where yx: "all_world2pix f star = (y, x)" by (cases "all_world2pix f star")
      let ?sub = "cutout ?s1 (pixels f) x y"
      obtain xc yc where cen: "centroid_2dg L ?sub (masked_values ?sub (threshold ?sub)) = (xc, yc)"
        by (cases "centroid_2dg L ?sub (masked_values ?sub (threshold ?sub))")
      obtain r2 s2 where e2: "exptime kws ?s1 = (r2, s2)" by (cases "exptime kws ?s1")
      obtain r3 s3 where e3: "obs_time kws s2 = (r3, s3)" by (cases "obs_time kws s2")
      obtain r4 s4 where e4: "make_aperture L ?sub (xc, yc) (r s3) (r_in s3) (r_out s3) s3 = (r4, s4)"
        by (cases "make_aperture L ?sub (xc, yc) (r s3) (r_in s3) (r_out s3) s3")
      from e2 obtain l2 where s2: "s2 = ?s1\<lparr>logfile := l2\<rparr>"
        unfolding exptime_def by (blast dest: property_state)
      from e3 obtain l3 where s3: "s3 = s2\<lparr>logfile := l3\<rparr>"
        unfolding obs_time_def by (blast dest: property_state)
      from e4 obtain l4 where s4: "s4 = s3\<lparr>logfile := l4\<rparr>"
        by (blast dest: make_aperture_state)
      from Cons.prems(1) True inside yx cen e2 e3 e4
      obtain ex tm cnt bkg where r2: "r2 = Inr ex" and r3: "r3 = Inr tm" and r4: "r4 = Inr (cnt, bkg)"
        and rec: "frames_loop kws L star fs
                    (acc\<lparr>exptimes := exptimes acc @ [py_times ex (24 * 60 * 60)],
                         object_counts := object_counts acc @ [cnt],
                         background_in_object := background_in_object acc @ [bkg],
                         x_pos := x_pos acc @ [x],
                         y_pos := y_pos acc @ [y],
                         times := times acc @ [tm]\<rparr>)
                    (s4\<lparr>good_frames_list := good_frames_list s4 @ [fname f]\<rparr>) = (Inr acc', s')"
        by (auto simp: Let_def split: sum.splits prod.splits)
      have al: "aligned (acc\<lparr>exptimes := exptimes acc @ [py_times ex (24 * 60 * 60)],
                         object_counts := object_counts acc @ [cnt],
                         background_in_object := background_in_object acc @ [bkg],
                         x_pos := x_pos acc @ [x],
                         y_pos := y_pos acc @ [y],
                         times := times acc @ [tm]\<rparr>)
                    (s4\<lparr>good_frames_list := good_frames_list s4 @ [fname f]\<rparr>)"
        using Cons.prems(2) s2 s3 s4 by (simp add: aligned_def)
      from Cons.IH [OF rec al] True inside s2 s3 s4 show ?thesis by simp
    qed
  qed
qed


lemma cutout_header [simp]: "cutout (s\<lparr>header := h\<rparr>) data x y = cutout s data x y"
  by (simp add: cutout_def)

lemma property_present:
  assumes "header s = Some h" "h k1 = Some v1" "h k2 = Some v2" "h k3 = Some v3"
    "h k4 = Some v4" "h k5 = Some v5"
  shows "property field [k1, k2, k3, k4, k5] s
           = (Inr (field \<lparr> o_exp = v1, o_obstime = v2, o_instr = v3, o_readout = v4, o_gain = v5 \<rparr>), s)"
  using assms by (simp add: property_def get_keyword_value_def itemgetter_def)

lemma frames_loop_step:
  assumes cel: "wcs_is_celestial f"
    and box: "\<not> r_out s > real_of_int (box_w s)"
    and pos: "all_world2pix f star = (y, x)"
    and cen: "centroid_2dg L (cutout s (pixels f) x y)
                (masked_values (cutout s (pixels f) x y) (threshold (cutout s (pixels f) x y))) = c"
    and hd: "hdr f k1 = Some v1" "hdr f k2 = Some v2" "hdr f k3 = Some v3"
            "hdr f k4 = Some v4" "hdr f k5 = Some v5"
    and pass: "aperture_sum L (cutout s (pixels f) x y) c (r s)
                 > sigma_clipped_median L (cutout s (pixels f) x y) c (r_in s) (r_out s) * area L (r s)"
  shows "frames_loop [k1, k2, k3, k4, k5] L star (f # fs) acc s
       = frames_loop [k1, k2, k3, k4, k5] L star fs
           (acc\<lparr>exptimes := exptimes acc @ [py_times v1 (24 * 60 * 60)],
                object_counts := object_counts acc @
                  [aperture_sum L (cutout s (pixels f) x y) c (r s)
                    - sigma_clipped_median L (cutout s (pixels f) x y) c (r_in s) (r_out s) * area L (r s)],
                background_in_object := background_in_object acc @
                  [sigma_clipped_median L (cutout s (pixels f) x y) c (r_in s) (r_out s) * area L (r s)],
                x_pos := x_pos acc @ [x],
                y_pos := y_pos acc @ [y],
                times := times acc @ [v2]\<rparr>)
           (s\<lparr>header := Some (hdr f),
              logfile := logfile s @
                  [LogInfoCounts (aperture_sum L (cutout s (pixels f) x y) c (r s)
                    - sigma_clipped_median L (cutout s (pixels f) x y) c (r_in s) (r_out s) * area L (r s))],
              good_frames_list := good_frames_list s @ [fname f]\<rparr>)"
proof -
  let ?s1 = "s\<lparr>header := Some (hdr f)\<rparr>"
  have h1: "header ?s1 = Some (hdr f)" by simp
  have e: "exptime [k1, k2, k3, k4, k5] ?s1 = (Inr v1, ?s1)"
    unfolding exptime_def using property_present [OF h1 hd, of o_exp] by simp
  have t: "obs_time [k1, k2, k3, k4, k5] ?s1 = (Inr v2, ?s1)"
    unfolding obs_time_def using property_present [OF h1 hd, of o_obstime] by simp
  obtain cx cy where c: "c = (cx, cy)" by (cases c)
  show ?thesis
    using cel box pos cen pass e t c
    by (simp add: Let_def make_aperture_def logger_def)
qed

lemma py_bound_le: "py_bound i n \<le> n"
  by (auto simp: py_bound_def)

lemma py_slice_length:
  "length (py_slice a b xs) = py_bound b (length xs) - py_bound a (length xs)"
  using py_bound_le [of b "length xs"] by (simp add: py_slice_def Let_def)

lemma window_length_le:
  "0 < w \<Longrightarrow> py_bound (i + w) n - py_bound (i - w) n \<le> nat (2 * w)"
  by (auto simp: py_bound_def)

lemma window_full_iff:
  "0 < w \<Longrightarrow>
     (py_bound (i + w) n - py_bound (i - w) n = nat (2 * w))
       = (0 \<le> i - w \<and> i + w \<le> int n \<or> - int n \<le> i - w \<and> i + w < 0)"
  by (auto simp: py_bound_def)

lemma py_slice_in_place:
  "0 \<le> a \<Longrightarrow> a \<le> b \<Longrightarrow> b \<le> int (length xs) \<Longrightarrow>
     py_slice a b xs = take (nat (b - a)) (drop (nat a) xs)"
  by (auto simp: py_slice_def py_bound_def Let_def nat_diff_distrib)

lemma py_slice_from_far_edge:
  "- int (length xs) \<le> a \<Longrightarrow> a \<le> b \<Longrightarrow> b < 0 \<Longrightarrow>
     py_slice a b xs = take (nat (b - a)) (drop (nat (a + int (length xs))) xs)"
proof -
  assume a: "- int (length xs) \<le> a" and ab: "a \<le> b" and b: "b < 0"
  have "nat (b + int (length xs)) - nat (a + int (length xs)) = nat (b - a)"
    using a ab by linarith
  then show ?thesis using a ab b by (simp add: py_slice_def py_bound_def Let_def)
qed

lemma set_py_slice: "set (py_slice a b xs) \<subseteq> set xs"
proof -
  have "set (py_slice a b xs) \<subseteq> set (drop (py_bound a (length xs)) xs)"
    by (simp add: py_slice_def Let_def set_take_subset)
  also have "\<dots> \<subseteq> set xs" by (rule set_drop_subset)
  finally show ?thesis .
qed


text \<open>
  Claim C2. When \<^verbatim>\<open>get_star_data\<close> returns, the six sequences have the length of
  \<^verbatim>\<open>good_frames_list\<close>, which holds the names of the frames with a celestial WCS among
  the first 600 files (all of them measured, or the call would have raised), and is empty
  when the outer radius exceeds the box width.
\<close>

theorem get_star_data_lockstep:
  "get_star_data kws L star fits_files s = (Inr d, s') \<Longrightarrow>
     length (object_counts d) = length (good_frames_list s')
     \<and> length (background_in_object d) = length (good_frames_list s')
     \<and> length (exptimes d) = length (good_frames_list s')
     \<and> length (x_pos d) = length (good_frames_list s')
     \<and> length (y_pos d) = length (good_frames_list s')
     \<and> length (times d) = length (good_frames_list s')
     \<and> good_frames_list s' =
          (if r_out s > real_of_int (box_w s) then []
           else map fname (filter wcs_is_celestial (take 600 fits_files)))"
proof -
  assume a: "get_star_data kws L star fits_files s = (Inr d, s')"
  have al: "aligned no_data (s\<lparr>good_frames_list := []\<rparr>)"
    by (simp add: aligned_def no_data_def)
  from a have "frames_loop kws L star (take 600 fits_files) no_data (s\<lparr>good_frames_list := []\<rparr>)
                 = (Inr d, s')"
    by (simp add: get_star_data_def)
  from frames_loop_good [OF this al] show ?thesis
    by (simp add: aligned_def)
qed

lemma sample_run:
  "fst (get_star_data tess_keywords (sample_lib 10000 50) ''WASP-1'' sample_frames
          (init ''WASP-1'' [] 0.4 1))
     = Inr \<lparr> object_counts = [9976, 9976], background_in_object = [24, 24],
             exptimes = [HNum 1728, HNum 1728], x_pos = [2, 1], y_pos = [2, 1],
             times = [HStr ''2019-07-25'', HStr ''2019-07-25''] \<rparr>"
  by (simp add: get_star_data_def sample_frames_def sample_frame_def sample_lib_def init_def
      no_data_def tess_keywords_def tess_header_def exptime_def obs_time_def property_def
      get_keyword_value_def itemgetter_def make_aperture_def logger_def Let_def power2_eq_square)


theorem get_star_data_lockstep_witness:
  "fst (get_star_data tess_keywords (sample_lib 10000 50) ''WASP-1'' sample_frames
          (init ''WASP-1'' [] 0.4 1))
     = Inr \<lparr> object_counts = [9976, 9976], background_in_object = [24, 24],
             exptimes = [HNum 1728, HNum 1728], x_pos = [2, 1], y_pos = [2, 1],
             times = [HStr ''2019-07-25'', HStr ''2019-07-25''] \<rparr>
   \<and> good_frames_list (snd (get_star_data tess_keywords (sample_lib 10000 50) ''WASP-1''
          sample_frames (init ''WASP-1'' [] 0.4 1))) = [''a.fits'', ''c.fits'']"
proof -
  let ?res = "get_star_data tess_keywords (sample_lib 10000 50) ''WASP-1'' sample_frames
          (init ''WASP-1'' [] 0.4 1)"
  let ?d = "\<lparr> object_counts = [9976, 9976], background_in_object = [24, 24],
             exptimes = [HNum 1728, HNum 1728], x_pos = [2, 1], y_pos = [2, 1],
             times = [HStr ''2019-07-25'', HStr ''2019-07-25''] \<rparr>"
  have a: "fst ?res = Inr ?d" by (rule sample_run)
  then have b: "?res = (Inr ?d, snd ?res)" by (metis prod.collapse)
  have c: "\<not> r_out (init ''WASP-1'' [] 0.4 1) > real_of_int (box_w (init ''WASP-1'' [] 0.4 1))"
    by (simp add: init_def)
  from get_star_data_lockstep [OF b] c
  have "good_frames_list (snd ?res) = map fname (filter wcs_is_celestial (take 600 sample_frames))"
    by simp
  then have "good_frames_list (snd ?res) = [''a.fits'', ''c.fits'']"
    by (simp add: sample_frames_def sample_frame_def)
  with a show ?thesis by simp
qed

lemma frames_loop_out_of_box_all:
  "r_out s > real_of_int (box_w s) \<Longrightarrow>
     frames_loop kws L star fs acc s
       = (Inr acc,
          case find wcs_is_celestial fs of
            None \<Rightarrow> s\<lparr>header := (if fs = [] then header s else Some (hdr (last fs)))\<rparr>
          | Some f \<Rightarrow> logger (LogDebug ''Out of box. Choose a smaller outer radius.'')
                        (s\<lparr>header := Some (hdr f)\<rparr>))"
proof (induction fs arbitrary: s)
  case Nil
  then show ?case by simp
next
  case (Cons f fs)
  show ?case
  proof (cases "wcs_is_celestial f")
    case True
    with Cons.prems show ?thesis by (simp add: frames_loop_out_of_box)
  next
    case False
    have "r_out (s\<lparr>header := Some (hdr f)\<rparr>) > real_of_int (box_w (s\<lparr>header := Some (hdr f)\<rparr>))"
      using Cons.prems by simp
    from Cons.IH [OF this] False show ?thesis
      by (auto simp: logger_def split: option.splits)
  qed
qed

text \<open>
  Claim C4. When \<open>r_out > box_w\<close> the Extractor raises nothing and returns six empty
  sequences: the loop stops at the first frame with a celestial WCS, logs once, and
  reads none of the files after it. So it is for \<open>r_out = 22\<close> and \<open>box_w = 20\<close>.
\<close>

theorem get_star_data_out_of_box:
  "r_out s > real_of_int (box_w s) \<Longrightarrow>
     get_star_data kws L star fits_files s
       = (Inr \<lparr> object_counts = [], background_in_object = [], exptimes = [],
                 x_pos = [], y_pos = [], times = [] \<rparr>,
          case find wcs_is_celestial (take 600 fits_files) of
            None \<Rightarrow> s\<lparr>good_frames_list := [],
                       header := (if take 600 fits_files = [] then header s
                                  else Some (hdr (last (take 600 fits_files))))\<rparr>
          | Some f \<Rightarrow> s\<lparr>good_frames_list := [], header := Some (hdr f),
                         logfile := logfile s @
                           [LogDebug ''Out of box. Choose a smaller outer radius.'']\<rparr>)"
proof -
  assume "r_out s > real_of_int (box_w s)"
  then have "r_out (s\<lparr>good_frames_list := []\<rparr>) > real_of_int (box_w (s\<lparr>good_frames_list := []\<rparr>))"
    by simp
  from frames_loop_out_of_box_all [OF this] show ?thesis
    by (simp add: get_star_data_def no_data_def logger_def split: option.splits)
qed

theorem get_star_data_out_of_box_witness:
  "r_out (init ''WASP-1'' [] 10 20) = 22 \<and> box_w (init ''WASP-1'' [] 10 20) = 20
   \<and> fst (get_star_data tess_keywords (sample_lib 10000 50) ''WASP-1'' sample_frames
            (init ''WASP-1'' [] 10 20))
       = Inr \<lparr> object_counts = [], background_in_object = [], exptimes = [],
               x_pos = [], y_pos = [], times = [] \<rparr>
   \<and> good_frames_list (snd (get_star_data tess_keywords (sample_lib 10000 50) ''WASP-1''
            sample_frames (init ''WASP-1'' [] 10 20))) = []"
proof -
  have a: "r_out (init ''WASP-1'' [] 10 20) > real_of_int (box_w (init ''WASP-1'' [] 10 20))"
    by (simp add: init_def)
  have b: "r_out (init ''WASP-1'' [] 10 20) = 22 \<and> box_w (init ''WASP-1'' [] 10 20) = 20"
    by (simp add: init_def)
  show ?thesis
    unfolding get_star_data_out_of_box [OF a]
    using b by (simp add: sample_frames_def sample_frame_def)
qed

text \<open>
  Claim C5 says that the skip of a frame without celestial WCS is logged. On one such
  frame the call returns six empty lists and the log is as empty as before the call.
\<close>

theorem get_star_data_no_wcs_counterexample:
  "fst (get_star_data tess_keywords (sample_lib 10000 50) ''WASP-1''
          [sample_frame ''b.fits'' False (2, 2)] (init ''WASP-1'' [] 0.4 1)) = Inr no_data
   \<and> logfile (snd (get_star_data tess_keywords (sample_lib 10000 50) ''WASP-1''
          [sample_frame ''b.fits'' False (2, 2)] (init ''WASP-1'' [] 0.4 1))) = []
   \<and> logfile (init ''WASP-1'' [] 0.4 1) = []"
  by (simp add: get_star_data_def sample_frame_def init_def)

text \<open>
  Claim C5, amended. A frame without celestial WCS adds nothing to the six sequences, to
  \<^verbatim>\<open>good_frames_list\<close> or to the log, raises nothing, and the loop goes on with the
  next frame; only \<^verbatim>\<open>self.header\<close> has changed.
\<close>

theorem frames_loop_skips_no_wcs:
  "\<not> wcs_is_celestial f \<Longrightarrow>
     frames_loop kws L star (f # fs) acc s
       = frames_loop kws L star fs acc (s\<lparr>header := Some (hdr f)\<rparr>)
     \<and> get_star_data kws L star (f # fs) s
       = frames_loop kws L star (take 599 fs) no_data
           (s\<lparr>good_frames_list := [], header := Some (hdr f)\<rparr>)"
  by (simp add: get_star_data_def take_Cons')

theorem frames_loop_skips_no_wcs_witness:
  "fst (get_star_data tess_keywords (sample_lib 10000 50) ''WASP-1''
          [sample_frame ''b.fits'' False (2, 2), sample_frame ''c.fits'' True (1, 1)]
          (init ''WASP-1'' [] 0.4 1))
     = Inr \<lparr> object_counts = [9976], background_in_object = [24],
             exptimes = [HNum 1728], x_pos = [1], y_pos = [1], times = [HStr ''2019-07-25''] \<rparr>
   \<and> snd (get_star_data tess_keywords (sample_lib 10000 50) ''WASP-1''
          [sample_frame ''b.fits'' False (2, 2), sample_frame ''c.fits'' True (1, 1)]
          (init ''WASP-1'' [] 0.4 1))
     = (init ''WASP-1'' [] 0.4 1)\<lparr>header := Some tess_header, good_frames_list := [''c.fits''],
          logfile := [LogInfoCounts 9976]\<rparr>"
proof -
  have a: "\<not> wcs_is_celestial (sample_frame ''b.fits'' False (2, 2))"
    by (simp add: sample_frame_def)
  have b: "take 599 [sample_frame ''c.fits'' True (1, 1)] = [sample_frame ''c.fits'' True (1, 1)]"
    by simp
  show ?thesis
    unfolding frames_loop_skips_no_wcs [OF a, THEN conjunct2] b
    by (simp add: sample_frame_def sample_lib_def init_def
      no_data_def tess_keywords_def tess_header_def exptime_def obs_time_def property_def
      get_keyword_value_def itemgetter_def make_aperture_def logger_def Let_def power2_eq_square)
qed


text \<open>
  Claim C10 says that slice bounds that become negative give a truncated or empty
  cutout. With both bounds negative the slice counts from the far edge: on the
  \<open>4 \<times> 4\<close> image, at \<open>x = -3\<close> and \<open>box_w = 1\<close>, the cutout has its full \<open>2\<close> rows and
  \<open>2\<close> columns.
\<close>

theorem cutout_wrapped_counterexample:
  "np_int (- 3) - box_w (init ''WASP-1'' [] 0.4 1) < 0
   \<and> np_int (- 3) + box_w (init ''WASP-1'' [] 0.4 1) < 0
   \<and> cutout (init ''WASP-1'' [] 0.4 1) sample_pixels (- 3) 1 = [[1, 2], [5, 6]]
   \<and> nat (2 * box_w (init ''WASP-1'' [] 0.4 1)) = 2"
  by (simp add: cutout_def np_slice2_def py_slice_def py_bound_def np_int_def init_def
      sample_pixels_def Let_def)

text \<open>
  Claim C10, amended. The code of the Extractor checks no bound and rejects no frame for
  its position: the cutout goes to \<^verbatim>\<open>centroid_2dg\<close> and \<^verbatim>\<open>make_aperture\<close> as it is,
  and when the header has the keywords and the measurement passes the assertion the frame
  is a good frame. Along each axis, of \<open>n\<close> pixels, with the bounds \<open>i - box_w\<close> and
  \<open>i + box_w\<close> around the integer position \<open>i\<close>, the cutout has at most \<open>2 box_w\<close>
  pixels. It has all of them exactly when the window lies in the image
  (\<open>0 \<le> i - box_w\<close> and \<open>i + box_w \<le> n\<close>) or when both bounds are negative and the lower
  one is no less than \<open>-n\<close>; then the bounds count from the far edge and the cutout is
  taken there. In every other case the cutout is truncated or empty. The rows of the
  image are taken to be of one length.
\<close>

theorem cutout_no_bounds_check:
  assumes cel: "wcs_is_celestial f"
    and box: "\<not> r_out s > real_of_int (box_w s)"
    and w: "0 < box_w s"
    and pos: "all_world2pix f star = (y, x)"
    and sub: "sub = cutout s (pixels f) x y"
    and cen: "centroid_2dg L sub (masked_values sub (threshold sub)) = c"
    and hd: "hdr f k1 = Some v1" "hdr f k2 = Some v2" "hdr f k3 = Some v3"
            "hdr f k4 = Some v4" "hdr f k5 = Some v5"
    and pass: "aperture_sum L sub c (r s) > sigma_clipped_median L sub c (r_in s) (r_out s) * area L (r s)"
    and rect: "\<forall>row \<in> set (pixels f). length row = ncols"
  shows "good_frames_list (snd (frames_loop [k1, k2, k3, k4, k5] L star [f] acc s))
           = good_frames_list s @ [fname f]
     \<and> length sub \<le> nat (2 * box_w s)
     \<and> (length sub = nat (2 * box_w s))
         = (0 \<le> np_int x - box_w s \<and> np_int x + box_w s \<le> int (length (pixels f))
            \<or> - int (length (pixels f)) \<le> np_int x - box_w s \<and> np_int x + box_w s < 0)
     \<and> (\<forall>row \<in> set sub.
           length row \<le> nat (2 * box_w s)
           \<and> (length row = nat (2 * box_w s))
               = (0 \<le> np_int y - box_w s \<and> np_int y + box_w s \<le> int ncols
                  \<or> - int ncols \<le> np_int y - box_w s \<and> np_int y + box_w s < 0))
     \<and> (- int (length (pixels f)) \<le> np_int x - box_w s \<and> np_int x + box_w s < 0 \<longrightarrow>
           sub = map (py_slice (np_int y - box_w s) (np_int y + box_w s))
                   (take (nat (2 * box_w s))
                      (drop (nat (np_int x - box_w s + int (length (pixels f)))) (pixels f))))
     \<and> (- int ncols \<le> np_int y - box_w s \<and> np_int y + box_w s < 0 \<longrightarrow>
           sub = map (\<lambda>row. take (nat (2 * box_w s)) (drop (nat (np_int y - box_w s + int ncols)) row))
                   (py_slice (np_int x - box_w s) (np_int x + box_w s) (pixels f)))"
proof -
  let ?lo = "np_int x - box_w s" and ?hi = "np_int x + box_w s"
  let ?cl = "np_int y - box_w s" and ?ch = "np_int y + box_w s"
  have sub': "sub = map (py_slice ?cl ?ch) (py_slice ?lo ?hi (pixels f))"
    by (simp add: sub cutout_def np_slice2_def)
  have 1: "good_frames_list (snd (frames_loop [k1, k2, k3, k4, k5] L star [f] acc s))
           = good_frames_list s @ [fname f]"
    using frames_loop_step [OF cel box pos cen [unfolded sub] hd pass [unfolded sub],
        where fs = "[]" and acc = acc]
    by simp
  have l: "length sub = py_bound ?hi (length (pixels f)) - py_bound ?lo (length (pixels f))"
    by (simp add: sub' py_slice_length)
  have 2: "length sub \<le> nat (2 * box_w s)"
    unfolding l by (rule window_length_le [OF w])
  have 3: "(length sub = nat (2 * box_w s))
         = (0 \<le> ?lo \<and> ?hi \<le> int (length (pixels f))
            \<or> - int (length (pixels f)) \<le> ?lo \<and> ?hi < 0)"
    unfolding l by (rule window_full_iff [OF w])
  have rows: "\<And>row. row \<in> set sub \<Longrightarrow>
      length row = py_bound ?ch ncols - py_bound ?cl ncols"
  proof -
    fix row assume "row \<in> set sub"
    then obtain row' where r': "row' \<in> set (py_slice ?lo ?hi (pixels f))"
      and row: "row = py_slice ?cl ?ch row'"
      by (auto simp: sub')
    from r' have "row' \<in> set (pixels f)" by (rule subsetD [OF set_py_slice])
    with rect have "length row' = ncols" by simp
    then show "length row = py_bound ?ch ncols - py_bound ?cl ncols"
      by (simp add: row py_slice_length)
  qed
  have 4: "\<forall>row \<in> set sub.
           length row \<le> nat (2 * box_w s)
           \<and> (length row = nat (2 * box_w s))
               = (0 \<le> ?cl \<and> ?ch \<le> int ncols \<or> - int ncols \<le> ?cl \<and> ?ch < 0)"
  proof
    fix row assume "row \<in> set sub"
    from rows [OF this] show "length row \<le> nat (2 * box_w s)
           \<and> (length row = nat (2 * box_w s))
               = (0 \<le> ?cl \<and> ?ch \<le> int ncols \<or> - int ncols \<le> ?cl \<and> ?ch < 0)"
      using window_length_le [OF w, of "np_int y" ncols] window_full_iff [OF w, of "np_int y" ncols]
      by simp
  qed
  have 5: "- int (length (pixels f)) \<le> ?lo \<and> ?hi < 0 \<longrightarrow>
           sub = map (py_slice ?cl ?ch)
                   (take (nat (2 * box_w s)) (drop (nat (?lo + int (length (pixels f)))) (pixels f)))"
  proof
    assume a: "- int (length (pixels f)) \<le> ?lo \<and> ?hi < 0"
    have "py_slice ?lo ?hi (pixels f)
            = take (nat (?hi - ?lo)) (drop (nat (?lo + int (length (pixels f)))) (pixels f))"
      using a w by (intro py_slice_from_far_edge) simp_all
    moreover have "?hi - ?lo = 2 * box_w s" by simp
    ultimately show "sub = map (py_slice ?cl ?ch)
                   (take (nat (2 * box_w s)) (drop (nat (?lo + int (length (pixels f)))) (pixels f)))"
      by (simp add: sub')
  qed
  have 6: "- int ncols \<le> ?cl \<and> ?ch < 0 \<longrightarrow>
           sub = map (\<lambda>row. take (nat (2 * box_w s)) (drop (nat (?cl + int ncols)) row))
                   (py_slice ?lo ?hi (pixels f))"
  proof
    assume a: "- int ncols \<le> ?cl \<and> ?ch < 0"
    have d: "?ch - ?cl = 2 * box_w s" by simp
    have "map (py_slice ?cl ?ch) (py_slice ?lo ?hi (pixels f))
            = map (\<lambda>row. take (nat (2 * box_w s)) (drop (nat (?cl + int ncols)) row))
                (py_slice ?lo ?hi (pixels f))"
    proof (rule map_cong [OF refl])
      fix row' assume "row' \<in> set (py_slice ?lo ?hi (pixels f))"
      then have "row' \<in> set (pixels f)" by (rule subsetD [OF set_py_slice])
      with rect have n: "length row' = ncols" by simp
      have "py_slice ?cl ?ch row' = take (nat (?ch - ?cl)) (drop (nat (?cl + int (length row'))) row')"
        using a w n by (intro py_slice_from_far_edge) simp_all
      then show "py_slice ?cl ?ch row'
                   = take (nat (2 * box_w s)) (drop (nat (?cl + int ncols)) row')"
        by (simp only: d n)
    qed
    then show "sub = map (\<lambda>row. take (nat (2 * box_w s)) (drop (nat (?cl + int ncols)) row))
                   (py_slice ?lo ?hi (pixels f))"
      by (simp only: sub')
  qed
  show ?thesis
    by (intro conjI) (rule 1 2 3 4 5 6)+
qed

theorem cutout_no_bounds_check_witness:
  "cutout (init ''WASP-1'' [] 0.9 2) (pixels (sample_frame ''a.fits'' True (2, 3))) 3 2
     = [[5, 6, 7, 8], [9, 10, 11, 12], [13, 14, 15, 16]]
   \<and> int (length (pixels (sample_frame ''a.fits'' True (2, 3)))) < np_int 3 + box_w (init ''WASP-1'' [] 0.9 2)
   \<and> length (cutout (init ''WASP-1'' [] 0.9 2) (pixels (sample_frame ''a.fits'' True (2, 3))) 3 2)
       \<noteq> nat (2 * box_w (init ''WASP-1'' [] 0.9 2))
   \<and> good_frames_list (snd (frames_loop tess_keywords (sample_lib 10000 50) ''WASP-1''
        [sample_frame ''a.fits'' True (2, 3)] no_data (init ''WASP-1'' [] 0.9 2))) = [''a.fits'']"
proof -
  let ?s = "init ''WASP-1'' [] 0.9 2" and ?f = "sample_frame ''a.fits'' True (2, 3)"
  let ?L = "sample_lib 10000 50"
  let ?sub = "[[5, 6, 7, 8], [9, 10, 11, 12], [13, 14, 15, 16 :: real]]"
  have sub: "cutout ?s (pixels ?f) 3 2 = ?sub"
    by (simp add: cutout_def np_slice2_def py_slice_def py_bound_def np_int_def init_def
      sample_frame_def sample_pixels_def Let_def)
  have cel: "wcs_is_celestial ?f" by (simp add: sample_frame_def)
  have box: "\<not> r_out ?s > real_of_int (box_w ?s)" by (simp add: init_def)
  have w: "0 < box_w ?s" by (simp add: init_def)
  have pos: "all_world2pix ?f ''WASP-1'' = (2, 3)" by (simp add: sample_frame_def)
  have cen: "centroid_2dg ?L ?sub (masked_values ?sub (threshold ?sub)) = (2, 2)"
    by (simp add: sample_lib_def)
  have hd: "hdr ?f ''EXPTIME'' = Some (HNum 0.02)" "hdr ?f ''DATE-OBS'' = Some (HStr ''2019-07-25'')"
    "hdr ?f ''INSTRUME'' = Some (HStr ''TESS'')" "hdr ?f ''RDNOISE'' = Some (HNum 7)"
    "hdr ?f ''GAIN'' = Some (HNum 5)"
    by (simp_all add: sample_frame_def tess_header_def)
  have pass: "aperture_sum ?L ?sub (2, 2) (r ?s)
      > sigma_clipped_median ?L ?sub (2, 2) (r_in ?s) (r_out ?s) * area ?L (r ?s)"
    by (simp add: sample_lib_def init_def power2_eq_square)
  have rect: "\<forall>row \<in> set (pixels ?f). length row = 4"
    by (simp add: sample_frame_def sample_pixels_def)
  have edge: "int (length (pixels ?f)) < np_int 3 + box_w ?s"
    by (simp add: sample_frame_def sample_pixels_def init_def np_int_def)
  note t = cutout_no_bounds_check [OF cel box w pos sub [symmetric] cen hd pass rect,
      where acc = no_data]
  from t have g: "good_frames_list (snd (frames_loop [''EXPTIME'', ''DATE-OBS'', ''INSTRUME'',
        ''RDNOISE'', ''GAIN''] ?L ''WASP-1'' [?f] no_data ?s)) = good_frames_list ?s @ [fname ?f]"
    by (rule conjunct1)
  from t have "(length ?sub = nat (2 * box_w ?s))
         = (0 \<le> np_int 3 - box_w ?s \<and> np_int 3 + box_w ?s \<le> int (length (pixels ?f))
            \<or> - int (length (pixels ?f)) \<le> np_int 3 - box_w ?s \<and> np_int 3 + box_w ?s < 0)"
    by (elim conjE)
  with edge have n: "length ?sub \<noteq> nat (2 * box_w ?s)"
    by (simp add: np_int_def init_def)
  show ?thesis
    unfolding sub using g n edge
    by (simp add: tess_keywords_def init_def sample_frame_def)
qed

lemma sqrt_25: "sqrt 25 = 5"
  by (rule real_sqrt_unique) simp_all

text \<open>
  Claim C7 says that the pixels at or below the median minus one standard deviation are
  masked. In the cutout \<open>[[3, 9], [11, 17]]\<close> the threshold is \<open>5\<close> and the pixel \<open>3\<close>
  lies below it, yet the code masks no pixel: \<^verbatim>\<open>masked_values\<close> masks the values equal
  to the threshold.
\<close>

theorem masked_values_equality_only:
  "threshold [[3, 9], [11, 17]] = Some 5
   \<and> masked_values [[3, 9], [11, 17]] (threshold [[3, 9], [11, 17]])
       = [[False, False], [False, False]]"
proof -
  have m: "np_mean [3, 9, 11, 17] = 10" by (simp add: np_mean_def)
  have s: "np_std [3, 9, 11, 17] = 5" by (simp add: np_std_def m np_mean_def sqrt_25)
  have t: "threshold [[3, 9], [11, 17]] = Some 5"
    by (simp add: threshold_def s np_median_def Let_def)
  show ?thesis unfolding t by (simp add: masked_values_def isclose_def)
qed


subsection \<open>Differential Photometry Engine\<close>


lemma np_broadcast_error:
  "np_broadcast f xs ys = Inl e \<longleftrightarrow>
     e = ValueError \<and> length xs \<noteq> length ys \<and> length xs \<noteq> 1 \<and> length ys \<noteq> 1"
  by (auto simp: np_broadcast_def)

lemma np_broadcast_same_length:
  "length xs = length ys \<Longrightarrow> np_broadcast f xs ys = Inr (map2 f xs ys)"
  by (simp add: np_broadcast_def)

lemma np_broadcast_length:
  "np_broadcast f xs ys = Inr zs \<Longrightarrow> length zs = (if length xs = 1 then length ys else length xs)"
  by (auto simp: np_broadcast_def split: if_splits)

lemma config_logfile [simp]: "config (s\<lparr>logfile := l\<rparr>) = config s"
  and config_header [simp]: "config (s\<lparr>header := h\<rparr>) = config s"
  and config_good [simp]: "config (s\<lparr>good_frames_list := g\<rparr>) = config s"
  by (simp_all add: config_def)

lemma property_config: "config (snd (property field kws s)) = config s"
proof -
  obtain res s' where p: "property field kws s = (res, s')" by (cases "property field kws s")
  from property_state [OF p] have "config s' = config (s\<lparr>logfile := logfile s'\<rparr>)" by simp
  with p show ?thesis by simp
qed

lemma property_header: "header (snd (property field kws s)) = header s"
proof -
  obtain res s' where p: "property field kws s = (res, s')" by (cases "property field kws s")
  from property_state [OF p] have "header s' = header (s\<lparr>logfile := logfile s'\<rparr>)" by simp
  with p show ?thesis by simp
qed

lemma property_good: "good_frames_list (snd (property field kws s)) = good_frames_list s"
proof -
  obtain res s' where p: "property field kws s = (res, s')" by (cases "property field kws s")
  from property_state [OF p] have "good_frames_list s' = good_frames_list (s\<lparr>logfile := logfile s'\<rparr>)" by simp
  with p show ?thesis by simp
qed

lemma get_keyword_value_fst:
  "header s = header t \<Longrightarrow> fst (get_keyword_value kws dflt s) = fst (get_keyword_value kws dflt t)"
  by (auto simp: get_keyword_value_def split: option.splits sum.splits)

lemma property_fst:
  "header s = header t \<Longrightarrow> fst (property field kws s) = fst (property field kws t)"
proof -
  assume h: "header s = header t"
  obtain a s' where 1: "get_keyword_value kws () s = (a, s')" by (cases "get_keyword_value kws () s")
  obtain b t' where 2: "get_keyword_value kws () t = (b, t')" by (cases "get_keyword_value kws () t")
  from get_keyword_value_fst [OF h, of kws "()"] 1 2 have "a = b" by simp
  with 1 2 show ?thesis
    by (simp add: property_def split: sum.splits kw_return.splits)
qed

lemma make_aperture_fst:
  "fst (make_aperture L data c radius rin rout s) = fst (make_aperture L data c radius rin rout t)"
  by (simp add: make_aperture_def Let_def)

lemma make_aperture_config: "config (snd (make_aperture L data c radius rin rout s)) = config s"
  by (simp add: make_aperture_def Let_def logger_def)

lemma config_fields:
  "config s = config t \<Longrightarrow>
     r s = r t \<and> r_in s = r_in t \<and> r_out s = r_out t \<and> box_w s = box_w t
     \<and> star_id s = star_id t \<and> list_reference_stars s = list_reference_stars t"
  by (simp add: config_def)

lemma cutout_config: "config s = config t \<Longrightarrow> cutout s = cutout t"
  by (auto simp: cutout_def fun_eq_iff dest: config_fields)

lemma frames_loop_config:
  "config (snd (frames_loop kws L star fs acc s)) = config s"
proof (induction fs arbitrary: acc s)
  case Nil
  show ?case by simp
next
  case (Cons f fs)
  let ?s1 = "s\<lparr>header := Some (hdr f)\<rparr>"
  have p: "\<And>u. config (snd (exptime kws u)) = config u" "\<And>u. config (snd (obs_time kws u)) = config u"
    by (simp_all add: exptime_def obs_time_def property_config)
  show ?case
  proof (cases "wcs_is_celestial f")
    case False
    then show ?thesis using Cons.IH [of acc ?s1] by simp
  next
    case True
    show ?thesis
    proof (cases "r_out s > real_of_int (box_w s)")
      case out: True
      with True show ?thesis by (simp add: frames_loop_out_of_box logger_def)
    next
      case inside: False
      obtain y x where yx: "all_world2pix f star = (y, x)" by (cases "all_world2pix f star")
      let ?sub = "cutout ?s1 (pixels f) x y"
      obtain xc yc where cen: "centroid_2dg L ?sub (masked_values ?sub (threshold ?sub)) = (xc, yc)"
        by (cases "centroid_2dg L ?sub (masked_values ?sub (threshold ?sub))")
      obtain r2 s2 where e2: "exptime kws ?s1 = (r2, s2)" by (cases "exptime kws ?s1")
      obtain r3 s3 where e3: "obs_time kws s2 = (r3, s3)" by (cases "obs_time kws s2")
      obtain r4 s4 where e4: "make_aperture L ?sub (xc, yc) (r s3) (r_in s3) (r_out s3) s3 = (r4, s4)"
        by (cases "make_aperture L ?sub (xc, yc) (r s3) (r_in s3) (r_out s3) s3")
      have c2: "config s2 = config s" using p(1) [of ?s1] e2 by simp
      have c3: "config s3 = config s" using p(2) [of s2] e3 c2 by simp
      have c4: "config s4 = config s" using make_aperture_config [of L ?sub "(xc, yc)" "r s3" "r_in s3" "r_out s3" s3] e4 c3 by simp
      show ?thesis
        using True inside yx cen e2 e3 e4 c2 c3 c4
        by (auto simp: Let_def Cons.IH split: sum.splits prod.splits)
    qed
  qed
qed

lemma frames_loop_fst:
  "config s = config t \<Longrightarrow>
     fst (frames_loop kws L star fs acc s) = fst (frames_loop kws L star fs acc t)"
proof (induction fs arbitrary: acc s t)
  case Nil
  show ?case by simp
next
  case (Cons f fs)
  let ?s1 = "s\<lparr>header := Some (hdr f)\<rparr>" and ?t1 = "t\<lparr>header := Some (hdr f)\<rparr>"
  from Cons.prems have c1: "config ?s1 = config ?t1" by simp
  note cf = config_fields [OF Cons.prems]
  show ?case
  proof (cases "wcs_is_celestial f")
    case False
    then show ?thesis using Cons.IH [OF c1] by simp
  next
    case True
    show ?thesis
    proof (cases "r_out s > real_of_int (box_w s)")
      case out: True
      with True cf show ?thesis by (simp add: frames_loop_out_of_box)
    next
      case inside: False
      obtain y x where yx: "all_world2pix f star = (y, x)" by (cases "all_world2pix f star")
      let ?sub = "cutout ?s1 (pixels f) x y"
      have sub: "cutout ?t1 (pixels f) x y = ?sub" using cutout_config [OF c1] by simp
      obtain xc yc where cen: "centroid_2dg L ?sub (masked_values ?sub (threshold ?sub)) = (xc, yc)"
        by (cases "centroid_2dg L ?sub (masked_values ?sub (threshold ?sub))")
      obtain r2 s2 where e2: "exptime kws ?s1 = (r2, s2)" by (cases "exptime kws ?s1")
      obtain q2 t2 where f2: "exptime kws ?t1 = (q2, t2)" by (cases "exptime kws ?t1")
      obtain r3 s3 where e3: "obs_time kws s2 = (r3, s3)" by (cases "obs_time kws s2")
      obtain q3 t3 where f3: "obs_time kws t2 = (q3, t3)" by (cases "obs_time kws t2")
      obtain r4 s4 where e4: "make_aperture L ?sub (xc, yc) (r s3) (r_in s3) (r_out s3) s3 = (r4, s4)"
        by (cases "make_aperture L ?sub (xc, yc) (r s3) (r_in s3) (r_out s3) s3")
      obtain q4 t4 where f4: "make_aperture L ?sub (xc, yc) (r t3) (r_in t3) (r_out t3) t3 = (q4, t4)"
        by (cases "make_aperture L ?sub (xc, yc) (r t3) (r_in t3) (r_out t3) t3")
      have "fst (exptime kws ?s1) = fst (exptime kws ?t1)"
        unfolding exptime_def by (rule property_fst) simp
      with e2 f2 have rq2: "r2 = q2" by simp
      have hs2: "header s2 = Some (hdr f)" "header t2 = Some (hdr f)"
        using property_header [of o_exp kws ?s1] property_header [of o_exp kws ?t1] e2 f2
        by (simp_all add: exptime_def)
      have cs2: "config s2 = config s" "config t2 = config t"
        using property_config [of o_exp kws ?s1] property_config [of o_exp kws ?t1] e2 f2
        by (simp_all add: exptime_def)
      have "fst (obs_time kws s2) = fst (obs_time kws t2)"
        unfolding obs_time_def by (rule property_fst) (simp add: hs2)
      with e3 f3 have rq3: "r3 = q3" by simp
      have cs3: "config s3 = config s" "config t3 = config t"
        using property_config [of o_obstime kws s2] property_config [of o_obstime kws t2] e3 f3 cs2
        by (simp_all add: obs_time_def)
      have cst: "config s3 = config t3" using cs3 Cons.prems by simp
      note cf3 = config_fields [OF cst]
      have rq4: "r4 = q4"
        using make_aperture_fst [of L ?sub "(xc, yc)" "r s3" "r_in s3" "r_out s3" s3 t3] e4 f4 cf3
        by simp
      have cs4: "config s4 = config t4"
        using make_aperture_config [of L ?sub "(xc, yc)" "r s3" "r_in s3" "r_out s3" s3]
          make_aperture_config [of L ?sub "(xc, yc)" "r t3" "r_in t3" "r_out t3" t3] e4 f4 cst
        by simp
      have cs4': "\<And>g h. config (s4\<lparr>good_frames_list := g\<rparr>) = config (t4\<lparr>good_frames_list := h\<rparr>)"
        using cs4 by simp
      show ?thesis
        using True inside cf yx sub cen e2 f2 e3 f3 e4 f4 rq2 rq3 rq4 Cons.IH [OF cs4']
        by (auto simp: Let_def split: sum.splits prod.splits)
    qed
  qed
qed

lemma get_star_data_fst:
  "config s = config t \<Longrightarrow>
     fst (get_star_data kws L star fs s) = fst (get_star_data kws L star fs t)"
  unfolding get_star_data_def by (rule frames_loop_fst) simp

lemma get_star_data_config: "config (snd (get_star_data kws L star fs s)) = config s"
  unfolding get_star_data_def using frames_loop_config [of kws L star _ no_data "s\<lparr>good_frames_list := []\<rparr>"] by simp


lemma collect_Inr: "collect (map (\<lambda>x. Inr (g x)) xs) = Inr (map g xs)"
  by (induction xs) simp_all

lemma np_broadcast2_rows:
  assumes "np_broadcast2 f a v = Inr x" and "\<forall>row \<in> set a. length row = length v"
  shows "x = map (\<lambda>row. map2 f row v) a"
proof (cases "a = []")
  case True
  with assms(1) show ?thesis by (auto simp: np_broadcast2_def split: sum.splits)
next
  case False
  have "map (\<lambda>row. np_broadcast f row v) a = map (\<lambda>row. Inr (map2 f row v)) a"
    using assms(2) by (intro map_cong) (simp_all add: np_broadcast_same_length)
  with False assms(1) show ?thesis by (simp add: np_broadcast2_def collect_Inr)
qed

lemma np_sum0_nth:
  "a \<noteq> [] \<Longrightarrow> j < length (hd a) \<Longrightarrow> np_sum0 a ! j = sum_list (column a j)"
  by (simp add: np_sum0_def)

lemma np_sum0_length: "a \<noteq> [] \<Longrightarrow> length (np_sum0 a) = length (hd a)"
  by (simp add: np_sum0_def)

lemma np_average_Inr:
  assumes "np_average a w = Inr avg"
  shows "w \<noteq> [] \<and> avg = map2 (/) (np_sum0 (map2 (map2 (*)) a w)) (np_sum0 w)"
  using assms by (auto simp: np_average_def Let_def split: if_splits)

lemma np_asarray2_Inr: "np_asarray2 rows = Inr x \<Longrightarrow> x = rows"
  by (auto simp: np_asarray2_def split: if_splits)

lemma ensemble_fields:
  assumes "ensemble tflux e tsec ron fl bl = Inr p"
  shows "target_flux p = tflux \<and> exptimes_sec p = e \<and> readout_noise p = ron
     \<and> target_flux_sec p = tsec
     \<and> reference_star_flux_sec p = fl \<and> background_in_ref_star_sec p = bl
     \<and> normalized_flux p = (case np_median (differential_flux p) of
                              None \<Rightarrow> [] | Some m \<Rightarrow> map (\<lambda>v. v / m) (differential_flux p))
     \<and> (\<exists>fe be sg. np_broadcast2 (*) fl e = Inr fe \<and> np_broadcast2 (*) bl e = Inr be
          \<and> np_broadcast2 (+) (map2 (map2 (+)) fe be) ron = Inr sg
          \<and> np_average fe (map (map (\<lambda>v. 1 / v)) sg) = Inr (ref_flux_averaged p)
          \<and> np_broadcast (/) tflux (ref_flux_averaged p) = Inr (differential_flux p))"
  using assms
  by (auto simp: ensemble_def split: sum.splits option.splits dest!: np_asarray2_Inr)

lemma ensemble_pointwise:
  assumes ens: "ensemble tflux e tsec ron fl bl = Inr p"
    and k: "length bl = length fl"
    and rows: "\<forall>i < length fl. length (fl ! i) = n \<and> length (bl ! i) = n"
    and len: "length e = n" "length ron = n" "length tflux = n"
    and j: "j < n"
  shows "differential_flux p ! j
           = spec_differential_flux (tflux ! j) (column fl j) (column bl j) (e ! j) (ron ! j)"
    and "length (differential_flux p) = n"
proof -
  from ensemble_fields [OF ens] obtain fe be sg where
    fe: "np_broadcast2 (*) fl e = Inr fe" and be: "np_broadcast2 (*) bl e = Inr be"
    and sg: "np_broadcast2 (+) (map2 (map2 (+)) fe be) ron = Inr sg"
    and av: "np_average fe (map (map (\<lambda>v. 1 / v)) sg) = Inr (ref_flux_averaged p)"
    and df: "np_broadcast (/) tflux (ref_flux_averaged p) = Inr (differential_flux p)"
    by blast
  let ?k = "length fl"
  have rf: "\<forall>row \<in> set fl. length row = length e" and rb: "\<forall>row \<in> set bl. length row = length e"
    using rows k len by (auto simp: in_set_conv_nth)
  have fe': "fe = map (\<lambda>row. map2 (*) row e) fl" by (rule np_broadcast2_rows [OF fe rf])
  have be': "be = map (\<lambda>row. map2 (*) row e) bl" by (rule np_broadcast2_rows [OF be rb])
  have rs: "\<forall>row \<in> set (map2 (map2 (+)) fe be). length row = length ron"
    using rows k len by (auto simp: fe' be' in_set_conv_nth)
  have sg': "sg = map (\<lambda>row. map2 (+) row ron) (map2 (map2 (+)) fe be)"
    by (rule np_broadcast2_rows [OF sg rs])
  let ?w = "map (map (\<lambda>v. 1 / v)) sg"
  from np_average_Inr [OF av] have wne: "?w \<noteq> []"
    and avg: "ref_flux_averaged p = map2 (/) (np_sum0 (map2 (map2 (*)) fe ?w)) (np_sum0 ?w)"
    by simp_all
  from wne have kpos: "0 < ?k" using k by (auto simp: sg' fe' be')
  have lk: "length fe = ?k" "length be = ?k" "length sg = ?k" "length ?w = ?k"
    using k by (simp_all add: fe' be' sg')
  have fe_ij: "\<And>i. i < ?k \<Longrightarrow> fe ! i ! j = fl ! i ! j * e ! j"
    using rows len j by (simp add: fe')
  have be_ij: "\<And>i. i < ?k \<Longrightarrow> be ! i ! j = bl ! i ! j * e ! j"
    using rows len j k by (simp add: be')
  have row_len: "\<And>i. i < ?k \<Longrightarrow> length (fe ! i) = n \<and> length (be ! i) = n"
    using rows len k by (simp add: fe' be')
  have sg_ij: "\<And>i. i < ?k \<Longrightarrow> sg ! i ! j = fl ! i ! j * e ! j + bl ! i ! j * e ! j + ron ! j"
    using row_len lk len j fe_ij be_ij by (simp add: sg')
  have sg_len: "\<And>i. i < ?k \<Longrightarrow> length (sg ! i) = n"
    using row_len lk len by (simp add: sg')
  have w_ij: "\<And>i. i < ?k \<Longrightarrow> ?w ! i ! j = variance_weight (fl ! i ! j) (bl ! i ! j) (e ! j) (ron ! j)"
    using sg_ij sg_len lk j by (simp add: variance_weight_def)
  have w_len: "\<And>i. i < ?k \<Longrightarrow> length (?w ! i) = n"
    using sg_len lk by simp
  let ?x = "map2 (map2 (*)) fe ?w"
  have x_len: "length ?x = ?k" using lk by simp
  have x_row: "\<And>i. i < ?k \<Longrightarrow> length (?x ! i) = n"
    using row_len w_len lk by simp
  have x_ij: "\<And>i. i < ?k \<Longrightarrow> ?x ! i ! j
                = variance_weight (fl ! i ! j) (bl ! i ! j) (e ! j) (ron ! j) * (fl ! i ! j * e ! j)"
  proof -
    fix i assume i: "i < ?k"
    have "?x ! i = map2 (*) (fe ! i) (?w ! i)" using i lk by simp
    then have "?x ! i ! j = fe ! i ! j * (?w ! i ! j)"
      using row_len [OF i] w_len [OF i] j by simp
    then show "?x ! i ! j
                = variance_weight (fl ! i ! j) (bl ! i ! j) (e ! j) (ron ! j) * (fl ! i ! j * e ! j)"
      using fe_ij [OF i] w_ij [OF i] by simp
  qed
  have hdw: "length (hd ?w) = n" using w_len [of 0] kpos lk wne by (simp add: hd_conv_nth)
  have xne: "?x \<noteq> []" using x_len kpos by auto
  have hdx: "length (hd ?x) = n" using x_row [of 0] kpos xne by (simp add: hd_conv_nth)
  let ?ws = "map2 (\<lambda>f b. variance_weight f b (e ! j) (ron ! j)) (column fl j) (column bl j)"
  let ?vs = "map (\<lambda>f. f * e ! j) (column fl j)"
  have colw: "column ?w j = ?ws"
    using w_ij lk k by (intro nth_equalityI) (simp_all add: column_def)
  have colx: "column ?x j = map2 (*) ?ws ?vs"
    using x_ij x_len k by (intro nth_equalityI) (simp_all add: column_def)
  have avg_j: "ref_flux_averaged p ! j = weighted_average ?ws ?vs"
    using j hdw hdx wne xne
    by (simp add: avg np_sum0_length np_sum0_nth colw colx weighted_average_def)
  have avg_len: "length (ref_flux_averaged p) = n"
    using hdw hdx wne xne by (simp add: avg np_sum0_length)
  from df avg_len len have d: "differential_flux p = map2 (/) tflux (ref_flux_averaged p)"
    by (simp add: np_broadcast_same_length)
  show "length (differential_flux p) = n" using avg_len len by (simp add: d)
  show "differential_flux p ! j
           = spec_differential_flux (tflux ! j) (column fl j) (column bl j) (e ! j) (ron ! j)"
    using j avg_len len avg_j by (simp add: d spec_differential_flux_def)
qed


lemma as_floats_length: "as_floats hs = Inr vs \<Longrightarrow> length vs = length hs"
proof (induction hs arbitrary: vs)
  case Nil
  then show ?case by simp
next
  case (Cons h hs)
  then show ?case by (cases h) (auto split: sum.splits)
qed

lemma get_star_data_aligned:
  "get_star_data kws L star fs s = (Inr d, s') \<Longrightarrow> aligned d s'"
proof -
  assume a: "get_star_data kws L star fs s = (Inr d, s')"
  have al: "aligned no_data (s\<lparr>good_frames_list := []\<rparr>)"
    by (simp add: aligned_def no_data_def)
  from a have "frames_loop kws L star (take 600 fs) no_data (s\<lparr>good_frames_list := []\<rparr>)
                 = (Inr d, s')"
    by (simp add: get_star_data_def)
  from frames_loop_good [OF this al] show ?thesis by simp
qed

lemma ref_loop_rows:
  assumes "ref_loop kws L files e refs (fl0, bl0) s = (Inr (fl, bl), s')"
  shows "\<exists>rf rb. fl = fl0 @ rf \<and> bl = bl0 @ rb
     \<and> list_all2 (\<lambda>ref_star row.
          map_sum id (\<lambda>d. np_broadcast (/) (object_counts d) e)
            (fst (get_star_data kws L ref_star (files ref_star) s)) = Inr (Inr row)) refs rf
     \<and> list_all2 (\<lambda>ref_star row.
          map_sum id (\<lambda>d. np_broadcast (/) (background_in_object d) e)
            (fst (get_star_data kws L ref_star (files ref_star) s)) = Inr (Inr row)) refs rb
     \<and> list_all2 (\<lambda>a b. length a = length b) rf rb"
  using assms
proof (induction refs arbitrary: fl0 bl0 s)
  case Nil
  then show ?case by simp
next
  case (Cons ref_star stars)
  obtain res s1 where g: "get_star_data kws L ref_star (files ref_star) s = (res, s1)"
    by (cases "get_star_data kws L ref_star (files ref_star) s")
  from Cons.prems g obtain d f b where res: "res = Inr d"
    and f: "np_broadcast (/) (object_counts d) e = Inr f"
    and b: "np_broadcast (/) (background_in_object d) e = Inr b"
    and rec: "ref_loop kws L files e stars (fl0 @ [f], bl0 @ [b]) s1 = (Inr (fl, bl), s')"
    by (auto split: sum.splits)
  have c1: "config s1 = config s" using get_star_data_config [of kws L ref_star "files ref_star" s] g by simp
  have same: "\<And>st. fst (get_star_data kws L st (files st) s1) = fst (get_star_data kws L st (files st) s)"
    by (rule get_star_data_fst [OF c1])
  from Cons.IH [OF rec] obtain rf rb where fl: "fl = (fl0 @ [f]) @ rf" and bl: "bl = (bl0 @ [b]) @ rb"
    and pf: "list_all2 (\<lambda>ref_star row.
          map_sum id (\<lambda>d. np_broadcast (/) (object_counts d) e)
            (fst (get_star_data kws L ref_star (files ref_star) s)) = Inr (Inr row)) stars rf"
    and pb: "list_all2 (\<lambda>ref_star row.
          map_sum id (\<lambda>d. np_broadcast (/) (background_in_object d) e)
            (fst (get_star_data kws L ref_star (files ref_star) s)) = Inr (Inr row)) stars rb"
    and ln: "list_all2 (\<lambda>a b. length a = length b) rf rb"
    unfolding same by blast
  from get_star_data_aligned [OF g [unfolded res]]
  have "length (object_counts d) = length (background_in_object d)" by (simp add: aligned_def)
  with np_broadcast_length [OF f] np_broadcast_length [OF b] have lfb: "length f = length b" by simp
  have "fl = fl0 @ (f # rf)" "bl = bl0 @ (b # rb)" using fl bl by simp_all
  moreover have "list_all2 (\<lambda>ref_star row.
          map_sum id (\<lambda>d. np_broadcast (/) (object_counts d) e)
            (fst (get_star_data kws L ref_star (files ref_star) s)) = Inr (Inr row)) (ref_star # stars) (f # rf)"
    using pf g res f by simp
  moreover have "list_all2 (\<lambda>ref_star row.
          map_sum id (\<lambda>d. np_broadcast (/) (background_in_object d) e)
            (fst (get_star_data kws L ref_star (files ref_star) s)) = Inr (Inr row)) (ref_star # stars) (b # rb)"
    using pb g res b by simp
  moreover have "list_all2 (\<lambda>a b. length a = length b) (f # rf) (b # rb)"
    using ln lfb by simp
  ultimately show ?case by blast
qed

lemma property_Inr_state:
  "property field kws s = (Inr v, s') \<Longrightarrow> s' = s"
  by (auto simp: property_def get_keyword_value_def split: option.splits if_splits sum.splits
      kw_return.splits prod.splits)

lemma do_photometry_Inr:
  assumes "do_photometry kws L files s = (Inr p, s')"
  shows "\<exists>d s1 e tsec rd fl bl.
    get_star_data kws L (star_id s) (files (star_id s)) s = (Inr d, s1)
    \<and> as_floats (exptimes d) = Inr e
    \<and> np_broadcast (/) (object_counts d) e = Inr tsec
    \<and> ref_loop kws L files e (list_reference_stars s1) ([], []) s1 = (Inr (fl, bl), s')
    \<and> ensemble (object_counts d) e tsec
         (replicate (length (good_frames_list s1)) ((rd * r s1)\<^sup>2 * pi)) fl bl = Inr p"
proof -
  obtain res s1 where g: "get_star_data kws L (star_id s) (files (star_id s)) s = (res, s1)"
    by (cases "get_star_data kws L (star_id s) (files (star_id s)) s")
  obtain gr s2 where gn: "gain kws s1 = (gr, s2)" by (cases "gain kws s1")
  obtain rr s3 where rn: "readout kws s2 = (rr, s3)" by (cases "readout kws s2")
  from assms g gn rn obtain d e tsec gv rd where res: "res = Inr d"
    and e: "as_floats (exptimes d) = Inr e"
    and t: "np_broadcast (/) (object_counts d) e = Inr tsec"
    and gr: "gr = Inr (HNum gv)" and rr: "rr = Inr (HNum rd)"
    and rest: "(case ref_loop kws L files e (list_reference_stars s3) ([], []) s3 of
        (Inl e, s4) \<Rightarrow> (Inl e, s4)
      | (Inr (flux_list, bkg_list), s4) \<Rightarrow>
          (ensemble (object_counts d) e tsec
             (replicate (length (good_frames_list s3)) ((rd * r s3)\<^sup>2 * pi))
             flux_list bkg_list, s4)) = (Inr p, s')"
    by (auto simp: do_photometry_def split: sum.splits hval.splits)
  from gn gr have s2: "s2 = s1" unfolding gain_def by (auto dest: property_Inr_state)
  from rn rr have s3: "s3 = s2" unfolding readout_def by (auto dest: property_Inr_state)
  obtain lr s4 where rl: "ref_loop kws L files e (list_reference_stars s1) ([], []) s1 = (lr, s4)"
    by (cases "ref_loop kws L files e (list_reference_stars s1) ([], []) s1")
  from rest rl s2 s3 obtain fl bl where lr: "lr = Inr (fl, bl)" and s4: "s4 = s'"
    and ens: "ensemble (object_counts d) e tsec
       (replicate (length (good_frames_list s1)) ((rd * r s1)\<^sup>2 * pi)) fl bl = Inr p"
    by (auto split: sum.splits prod.splits)
  have g': "get_star_data kws L (star_id s) (files (star_id s)) s = (Inr d, s1)"
    using g res by simp
  have rl': "ref_loop kws L files e (list_reference_stars s1) ([], []) s1 = (Inr (fl, bl), s')"
    using rl lr s4 by simp
  show ?thesis
    by (intro exI conjI) (rule g' e t rl' ens)+
qed


lemma sort_nonempty: "(sort xs = []) = (xs = [])"
  by (metis length_sort length_0_conv)

lemma np_median_nonempty: "xs \<noteq> [] \<Longrightarrow> \<exists>m. np_median xs = Some m"
proof -
  assume "xs \<noteq> []"
  then have "np_median xs =
      Some (if odd (length xs) then sort xs ! (length xs div 2)
            else (sort xs ! (length xs div 2 - 1) + sort xs ! (length xs div 2)) / 2)"
    by (simp add: np_median_def Let_def sort_nonempty)
  then show ?thesis by (rule exI)
qed

text \<open>
  Claim C3. When \<^verbatim>\<open>do_photometry\<close> reaches the normalised flux and the rows of the
  reference stars are as long as the series of the target, the differential flux of every
  frame is the raw counts of the target over the variance-weighted average (weights the
  inverse of flux times exposure time plus background times exposure time plus readout
  variance) of the per-exposure fluxes of the reference stars, and the normalised flux is
  the differential flux over its median.
\<close>

theorem do_photometry_differential_flux:
  assumes run: "do_photometry kws L files s = (Inr p, s')"
    and rows: "\<forall>row \<in> set (reference_star_flux_sec p). length row = length (target_flux p)"
    and j: "j < length (target_flux p)"
  shows "map_sum id object_counts (fst (get_star_data kws L (star_id s) (files (star_id s)) s))
           = Inr (target_flux p)
     \<and> differential_flux p ! j
         = spec_differential_flux (target_flux p ! j)
             (column (reference_star_flux_sec p) j) (column (background_in_ref_star_sec p) j)
             (exptimes_sec p ! j) (readout_noise p ! j)
     \<and> length (differential_flux p) = length (target_flux p)
     \<and> (\<exists>m. np_median (differential_flux p) = Some m
            \<and> normalized_flux p = map (\<lambda>v. v / m) (differential_flux p))"
proof -
  from do_photometry_Inr [OF run] obtain d s1 e tsec rd fl bl where
    g: "get_star_data kws L (star_id s) (files (star_id s)) s = (Inr d, s1)"
    and e: "as_floats (exptimes d) = Inr e"
    and rl: "ref_loop kws L files e (list_reference_stars s1) ([], []) s1 = (Inr (fl, bl), s')"
    and ens: "ensemble (object_counts d) e tsec
       (replicate (length (good_frames_list s1)) ((rd * r s1)\<^sup>2 * pi)) fl bl = Inr p"
    by blast
  let ?ron = "replicate (length (good_frames_list s1)) ((rd * r s1)\<^sup>2 * pi)"
  let ?n = "length (object_counts d)"
  note fields = ensemble_fields [OF ens]
  from fields have tf: "target_flux p = object_counts d" and fl: "reference_star_flux_sec p = fl"
    and bl: "background_in_ref_star_sec p = bl" and ee: "exptimes_sec p = e"
    and rn: "readout_noise p = ?ron"
    by simp_all
  from get_star_data_aligned [OF g] have al: "aligned d s1" .
  have le: "length e = ?n" using as_floats_length [OF e] al by (simp add: aligned_def)
  have lr: "length ?ron = ?n" using al by (simp add: aligned_def)
  from ref_loop_rows [OF rl] have ll: "list_all2 (\<lambda>a b. length a = length b) fl bl" by auto
  then have k: "length bl = length fl" by (simp add: list_all2_lengthD)
  have rws: "\<forall>i < length fl. length (fl ! i) = ?n \<and> length (bl ! i) = ?n"
  proof (intro allI impI)
    fix i assume i: "i < length fl"
    then have "fl ! i \<in> set (reference_star_flux_sec p)" by (simp add: fl)
    with rows have a: "length (fl ! i) = ?n" by (simp add: tf)
    from ll i have "length (fl ! i) = length (bl ! i)" by (rule list_all2_nthD)
    with a show "length (fl ! i) = ?n \<and> length (bl ! i) = ?n" by simp
  qed
  from j have j': "j < ?n" by (simp add: tf)
  note pw = ensemble_pointwise [OF ens k rws le lr refl j']
  have 1: "map_sum id object_counts (fst (get_star_data kws L (star_id s) (files (star_id s)) s))
           = Inr (target_flux p)"
    using g tf by simp
  have 2: "differential_flux p ! j
         = spec_differential_flux (target_flux p ! j)
             (column (reference_star_flux_sec p) j) (column (background_in_ref_star_sec p) j)
             (exptimes_sec p ! j) (readout_noise p ! j)"
    using pw(1) by (simp only: tf fl bl ee rn)
  have 3: "length (differential_flux p) = length (target_flux p)" using pw(2) tf by simp
  with j have "differential_flux p \<noteq> []" by auto
  from np_median_nonempty [OF this] obtain m where m: "np_median (differential_flux p) = Some m" ..
  with fields have 4: "normalized_flux p = map (\<lambda>v. v / m) (differential_flux p)" by simp
  show ?thesis
    by (intro conjI exI [of _ m]) (rule 1 2 3 m 4)+
qed



lemma ref_loop_broadcast_error:
  assumes "fst (get_star_data kws L ref_star (files ref_star) s) = Inr d"
    and "length (object_counts d) \<noteq> length etimes" "length (object_counts d) \<noteq> 1"
        "length etimes \<noteq> 1"
  shows "fst (ref_loop kws L files etimes (ref_star # stars) acc s) = Inl ValueError"
proof -
  from assms(2-4) have "np_broadcast (/) (object_counts d) etimes = Inl ValueError"
    by (simp add: np_broadcast_def)
  moreover from assms(1) obtain s1 where
    "get_star_data kws L ref_star (files ref_star) s = (Inr d, s1)"
    by (cases "get_star_data kws L ref_star (files ref_star) s") auto
  ultimately show ?thesis by (cases acc) simp
qed




lemma field_target:
  "fst (get_star_data tess_keywords pixel_lib ''WASP-1'' (field_files ''WASP-1'')
          (init ''WASP-1'' [''REF-1'', ''REF-2''] 0.4 1))
     = Inr \<lparr> object_counts = [30, 30], background_in_object = [4, 4],
             exptimes = [HNum 1728, HNum 1728], x_pos = [2, 2], y_pos = [2, 2],
             times = [HStr ''2019-07-25'', HStr ''2019-07-25''] \<rparr>"
  by (simp add: get_star_data_def field_files_def field_frame_def pixel_lib_def init_def
      no_data_def tess_keywords_def tess_header_def exptime_def obs_time_def property_def
      get_keyword_value_def itemgetter_def make_aperture_def logger_def Let_def power2_eq_square
      cutout_def np_slice2_def py_slice_def py_bound_def np_int_def sample_pixels_def)

lemma field_run:
  "fst (do_photometry tess_keywords pixel_lib field_files
          (init ''WASP-1'' [''REF-1'', ''REF-2''] 0.4 1))
     = ensemble [30, 30] [1728, 1728] [30 / 1728, 30 / 1728]
         [(7 * 0.4)\<^sup>2 * pi, (7 * 0.4)\<^sup>2 * pi]
         [[10 / 1728, 10 / 1728], [18 / 1728, 18 / 1728]]
         [[4 / 1728, 4 / 1728], [4 / 1728, 4 / 1728]]"
  by (simp add: do_photometry_def get_star_data_def field_files_def field_frame_def pixel_lib_def init_def
      no_data_def tess_keywords_def tess_header_def exptime_def obs_time_def property_def
      gain_def readout_def np_broadcast_def
      get_keyword_value_def itemgetter_def make_aperture_def logger_def Let_def power2_eq_square
      cutout_def np_slice2_def py_slice_def py_bound_def np_int_def sample_pixels_def)



lemma weight_sum_pos:
  "0 < a \<Longrightarrow> 0 < b \<Longrightarrow> 0 \<le> c \<Longrightarrow> 1 / (a + c * pi) + 1 / (b + c * pi) \<noteq> 0"
proof -
  assume a: "0 < a" and b: "0 < b" and c: "0 \<le> c"
  have "0 \<le> c * pi" using c by simp
  then have "0 < 1 / (a + c * pi)" "0 < 1 / (b + c * pi)" using a b by simp_all
  then show ?thesis by linarith
qed

lemma field_ensemble:
  "\<not> isl (ensemble [30, 30] [1728, 1728] [30 / 1728, 30 / 1728]
         [(7 * 0.4)\<^sup>2 * pi, (7 * 0.4)\<^sup>2 * pi]
         [[10 / 1728, 10 / 1728], [18 / 1728, 18 / 1728]]
         [[4 / 1728, 4 / 1728], [4 / 1728, 4 / 1728]])"
proof -
  have w: "1 / (14 + (7 * 0.4)\<^sup>2 * pi) + 1 / (22 + (7 * 0.4)\<^sup>2 * pi) \<noteq> (0::real)"
    by (rule weight_sum_pos) simp_all
  have fe: "np_broadcast2 (*) [[10 / 1728, 10 / 1728], [18 / 1728, 18 / 1728]] [1728, 1728]
              = Inr [[10, 10], [18, 18]]"
    by (simp add: np_broadcast2_def np_broadcast_def)
  have be: "np_broadcast2 (*) [[4 / 1728, 4 / 1728], [4 / 1728, 4 / 1728]] [1728, 1728]
              = Inr [[4, 4], [4, 4]]"
    by (simp add: np_broadcast2_def np_broadcast_def)
  have sg: "np_broadcast2 (+) (map2 (map2 (+)) [[10, 10], [18, 18]] [[4, 4], [4, 4]])
              [(7 * 0.4)\<^sup>2 * pi, (7 * 0.4)\<^sup>2 * pi]
              = Inr [[14 + (7 * 0.4)\<^sup>2 * pi, 14 + (7 * 0.4)\<^sup>2 * pi],
                     [22 + (7 * 0.4)\<^sup>2 * pi, 22 + (7 * 0.4)\<^sup>2 * pi]]"
    by (simp add: np_broadcast2_def np_broadcast_def)
  have av: "\<not> isl (np_average [[10, 10], [18, 18]]
              (map (map (\<lambda>v. 1 / v)) [[14 + (7 * 0.4)\<^sup>2 * pi, 14 + (7 * 0.4)\<^sup>2 * pi],
                     [22 + (7 * 0.4)\<^sup>2 * pi, 22 + (7 * 0.4)\<^sup>2 * pi]]))"
    using w by (simp add: np_average_def np_sum0_def column_def Let_def)
  then obtain avg where avg: "np_average [[10, 10], [18, 18]]
              (map (map (\<lambda>v. 1 / v)) [[14 + (7 * 0.4)\<^sup>2 * pi, 14 + (7 * 0.4)\<^sup>2 * pi],
                     [22 + (7 * 0.4)\<^sup>2 * pi, 22 + (7 * 0.4)\<^sup>2 * pi]]) = Inr avg"
    by (auto simp: isl_def) (metis sum.exhaust)
  have la: "length avg = 2" using avg by (auto simp: np_average_def np_sum0_def Let_def split: if_splits)
  then obtain df where df: "np_broadcast (/) [30, 30] avg = Inr df" by (simp add: np_broadcast_def)
  have a1: "np_asarray2 [[10 / 1728, 10 / 1728], [18 / 1728, 18 / 1728]]
              = Inr [[10 / 1728, 10 / 1728], [18 / 1728, 18 / 1728 :: real]]"
    and a2: "np_asarray2 [[4 / 1728, 4 / 1728], [4 / 1728, 4 / 1728]]
              = Inr [[4 / 1728, 4 / 1728], [4 / 1728, 4 / 1728 :: real]]"
    by (simp_all add: np_asarray2_def)
  show ?thesis
    unfolding ensemble_def by (simp only: a1 a2 fe be sg avg df sum.case sum.disc not_False_eq_True)
qed



lemma not_isl_collapse: "\<not> isl (fst R) \<Longrightarrow> R = (Inr (projr (fst R)), snd R)"
  by (cases R) (auto simp: isl_def)

lemma field_photometry:
  "ensemble [30, 30] [1728, 1728] [30 / 1728, 30 / 1728]
         [(7 * 0.4)\<^sup>2 * pi, (7 * 0.4)\<^sup>2 * pi]
         [[10 / 1728, 10 / 1728], [18 / 1728, 18 / 1728]]
         [[4 / 1728, 4 / 1728], [4 / 1728, 4 / 1728]]
     = Inr (projr (fst (do_photometry tess_keywords pixel_lib field_files
          (init ''WASP-1'' [''REF-1'', ''REF-2''] 0.4 1))))"
  unfolding field_run using field_ensemble
  by (cases "ensemble [30, 30] [1728, 1728] [30 / 1728, 30 / 1728]
         [(7 * 0.4)\<^sup>2 * pi, (7 * 0.4)\<^sup>2 * pi]
         [[10 / 1728, 10 / 1728], [18 / 1728, 18 / 1728]]
         [[4 / 1728, 4 / 1728], [4 / 1728, 4 / 1728]]") simp_all

theorem do_photometry_differential_flux_witness:
  "\<not> isl (fst (do_photometry tess_keywords pixel_lib field_files
          (init ''WASP-1'' [''REF-1'', ''REF-2''] 0.4 1)))
   \<and> target_flux (projr (fst (do_photometry tess_keywords pixel_lib field_files
          (init ''WASP-1'' [''REF-1'', ''REF-2''] 0.4 1)))) = [30, 30]
   \<and> differential_flux (projr (fst (do_photometry tess_keywords pixel_lib field_files
          (init ''WASP-1'' [''REF-1'', ''REF-2''] 0.4 1)))) ! 0
       = spec_differential_flux 30 [10 / 1728, 18 / 1728] [4 / 1728, 4 / 1728] 1728
           ((7 * 0.4)\<^sup>2 * pi)
   \<and> length (differential_flux (projr (fst (do_photometry tess_keywords pixel_lib field_files
          (init ''WASP-1'' [''REF-1'', ''REF-2''] 0.4 1))))) = 2"
proof -
  let ?R = "do_photometry tess_keywords pixel_lib field_files
          (init ''WASP-1'' [''REF-1'', ''REF-2''] 0.4 1)"
  let ?P = "projr (fst ?R)"
  have nr: "\<not> isl (fst ?R)" unfolding field_run by (rule field_ensemble)
  from not_isl_collapse [OF nr] have run: "?R = (Inr ?P, snd ?R)" .
  note f = ensemble_fields [OF field_photometry]
  from f have tf: "target_flux ?P = [30, 30]" by simp
  from f have rf: "reference_star_flux_sec ?P = [[10 / 1728, 10 / 1728], [18 / 1728, 18 / 1728]]"
    by simp
  from f have bf: "background_in_ref_star_sec ?P = [[4 / 1728, 4 / 1728], [4 / 1728, 4 / 1728]]"
    by simp
  from f have ef: "exptimes_sec ?P = [1728, 1728]" by simp
  from f have nf: "readout_noise ?P = [(7 * 0.4)\<^sup>2 * pi, (7 * 0.4)\<^sup>2 * pi]" by simp
  have rows: "\<forall>row \<in> set (reference_star_flux_sec ?P). length row = length (target_flux ?P)"
    unfolding rf tf by simp
  have j: "0 < length (target_flux ?P)" unfolding tf by simp
  from do_photometry_differential_flux [OF run rows j]
  have "differential_flux ?P ! 0
         = spec_differential_flux (target_flux ?P ! 0)
             (column (reference_star_flux_sec ?P) 0) (column (background_in_ref_star_sec ?P) 0)
             (exptimes_sec ?P ! 0) (readout_noise ?P ! 0)"
    and "length (differential_flux ?P) = length (target_flux ?P)"
    by blast+
  then have "differential_flux ?P ! 0
       = spec_differential_flux 30 [10 / 1728, 18 / 1728] [4 / 1728, 4 / 1728] 1728
           ((7 * 0.4)\<^sup>2 * pi)"
    and "length (differential_flux ?P) = 2"
    unfolding tf rf bf ef nf by (simp_all add: column_def)
  with nr tf show ?thesis by blast
qed





lemma do_photometry_propagates:
  "fst (get_star_data kws L (star_id s) (files (star_id s)) s) = Inl e \<Longrightarrow>
     fst (do_photometry kws L files s) = Inl e"
  by (cases "get_star_data kws L (star_id s) (files (star_id s)) s")
     (simp add: do_photometry_def)

text \<open>
  A measurement that fails the assertion of \<^verbatim>\<open>make_aperture\<close> ends the loop over the
  files with the AssertionError, which nothing catches on the way out of
  \<^verbatim>\<open>do_photometry\<close>.
\<close>

lemma frames_loop_assertion:
  assumes cel: "wcs_is_celestial f"
    and box: "\<not> r_out s > real_of_int (box_w s)"
    and pos: "all_world2pix f star = (y, x)"
    and cen: "centroid_2dg L (cutout s (pixels f) x y)
                (masked_values (cutout s (pixels f) x y) (threshold (cutout s (pixels f) x y))) = c"
    and hd: "hdr f k1 = Some v1" "hdr f k2 = Some v2" "hdr f k3 = Some v3"
            "hdr f k4 = Some v4" "hdr f k5 = Some v5"
    and fail: "\<not> aperture_sum L (cutout s (pixels f) x y) c (r s)
                 > sigma_clipped_median L (cutout s (pixels f) x y) c (r_in s) (r_out s) * area L (r s)"
  shows "fst (frames_loop [k1, k2, k3, k4, k5] L star (f # fs) acc s) = Inl AssertionError"
proof -
  let ?s1 = "s\<lparr>header := Some (hdr f)\<rparr>"
  have h1: "header ?s1 = Some (hdr f)" by simp
  have e: "exptime [k1, k2, k3, k4, k5] ?s1 = (Inr v1, ?s1)"
    unfolding exptime_def using property_present [OF h1 hd, of o_exp] by simp
  have t: "obs_time [k1, k2, k3, k4, k5] ?s1 = (Inr v2, ?s1)"
    unfolding obs_time_def using property_present [OF h1 hd, of o_obstime] by simp
  obtain cx cy where c: "c = (cx, cy)" by (cases c)
  show ?thesis
    using cel box pos cen fail e t c
    by (simp add: Let_def make_aperture_def)
qed

end
